theory Spec2Isabelle
  imports Complex_Main "HOL-Library.Sublist"
begin

section \<open>JavaScript values, thrown errors and the observable effects\<close>

text \<open>
  The two programs of the repository, \<^verbatim>\<open>src/bin/postprocess.ts\<close> and the
  preparation step (\<^verbatim>\<open>src/unnamed/part_000\<close>), are GitHub Action entry points. Each
  is one \<^verbatim>\<open>async function run()\<close> that reads inputs, calls the outside world (HTTP,
  the shell, the OIDC provider) and reports through \<^verbatim>\<open>@actions/core\<close>.

  A string is the list of the bytes of its UTF-8 encoding.

  A value produced by \<^verbatim>\<open>JSON.parse\<close>, or read from one by property access, is a
  \<open>jsval\<close>. A number is kept as a rational: the model only asks whether it is zero
  or positive.
\<close>

datatype jsval =
    JUndefined
  | JNull
  | JBool bool
  | JNum rat
  | JStr string
  | JArr "jsval list"
  | JObj "(string \<times> jsval) list"

text \<open>
  A thrown value. \<open>Error m\<close> is any instance of \<^verbatim>\<open>Error\<close> (also \<^verbatim>\<open>SyntaxError\<close>,
  \<^verbatim>\<open>TypeError\<close>) with message \<open>m\<close>; \<open>NonError\<close> is a thrown value for which
  \<^verbatim>\<open>error instanceof Error\<close> is false.
\<close>

datatype exn = Error string | NonError

text \<open>
  A template literal is kept as the list of its parts, so that no number or object
  has to be printed: \<open>Lit\<close> is literal text, \<open>Txt\<close> an interpolated string
  variable, \<open>Js\<close> an interpolated parsed value, \<open>Json\<close> the result of
  \<^verbatim>\<open>JSON.stringify\<close> on a value, \<open>Count\<close> an interpolated number and \<open>Err\<close> an
  interpolated thrown value.
\<close>

datatype part = Lit string | Txt string | Js jsval | Json jsval | Count nat | Err exn

text \<open>
  The effects of a run, in the order they happen: the calls into \<^verbatim>\<open>@actions/core\<close>,
  every \<^verbatim>\<open>http.post\<close> (URL, the object given to \<^verbatim>\<open>JSON.stringify\<close> as request body,
  headers) and every \<^verbatim>\<open>execSync\<close> (the command).
\<close>

datatype event =
    Info "part list"
  | Warning "part list"
  | Debug "part list"
  | SetFailed string
  | SetSecret jsval
  | ExportVariable string jsval
  | SetOutput string jsval
  | Post string jsval "(string \<times> string) list"
  | Exec string

record response =
  statusCode :: nat
  readBody :: "exn + string"

text \<open>
  Everything a run reads from outside:
  \<^item> \<open>input\<close>: the raw value of an action input, \<open>''''\<close> when it is not supplied
    (\<^verbatim>\<open>process.env['INPUT_...'] || ''\<close>);
  \<^item> \<open>env\<close>: \<^verbatim>\<open>process.env\<close>, \<open>''''\<close> when the variable is unset;
  \<^item> \<open>run_id\<close>, \<open>repo_owner\<close>, \<open>repo_name\<close>: \<^verbatim>\<open>github.context\<close>;
  \<^item> \<open>getIDToken\<close>: what \<^verbatim>\<open>await core.getIDToken()\<close> yields or throws;
  \<^item> \<open>http_post\<close>: what \<^verbatim>\<open>await http.post(url, body, headers)\<close> yields or throws;
  \<^item> \<open>JSON_parse\<close>: \<^verbatim>\<open>JSON.parse\<close>;
  \<^item> \<open>to_number\<close>: the numeric value JavaScript gives a string, array or object in a
    comparison (\<open>None\<close> is \<^verbatim>\<open>NaN\<close>);
  \<^item> \<open>sh\<close>: what \<^verbatim>\<open>execSync(command)\<close> yields or throws, for a command the model does
    not interpret;
  \<^item> \<open>git_branch\<close>: the text \<^verbatim>\<open>git branch --format='%(refname:short)'\<close> writes to its
    standard output (nothing when git fails: its message goes to standard error);
  \<^item> \<open>spawn_failure\<close>: the error \<^verbatim>\<open>execSync\<close> throws when the branch pipeline cannot
    be run at all;
  \<^item> \<open>arrival\<close>: the order in which responses arrive while two calls wait side by side:
    \<open>arrival k\<close> tells whether, at the \<open>k\<close>-th such moment, the first of the two calls
    is the one that goes on.
  The outside world is a function of the request: a run never repeats a request. The
  other calls into \<^verbatim>\<open>@actions/core\<close> (logging, outputs, \<^verbatim>\<open>setFailed\<close>) are taken not to
  throw, and \<^verbatim>\<open>github.context\<close> is read as plain data.
\<close>

record world =
  input :: "string \<Rightarrow> string"
  env :: "string \<Rightarrow> string"
  run_id :: string
  repo_owner :: string
  repo_name :: string
  getIDToken :: "exn + string"
  http_post :: "string \<Rightarrow> jsval \<Rightarrow> (string \<times> string) list \<Rightarrow> exn + response"
  JSON_parse :: "string \<Rightarrow> exn + jsval"
  to_number :: "jsval \<Rightarrow> rat option"
  sh :: "string \<Rightarrow> exn + string"
  git_branch :: string
  spawn_failure :: "exn option"
  arrival :: "nat \<Rightarrow> bool"

subsection \<open>Computations: a log of effects and a result or a thrown error\<close>

type_synonym 'a action = "event list \<times> (exn + 'a)"

definition ret :: "'a \<Rightarrow> 'a action" where
  "ret x = ([], Inr x)"

definition throw :: "exn \<Rightarrow> 'a action" where
  "throw e = ([], Inl e)"

definition emit :: "event \<Rightarrow> unit action" where
  "emit ev = ([ev], Inr ())"

definition lift :: "exn + 'a \<Rightarrow> 'a action" where
  "lift r = ([], r)"

text \<open>Sequencing: the second computation runs only when the first did not throw.\<close>

definition bind :: "'a action \<Rightarrow> ('a \<Rightarrow> 'b action) \<Rightarrow> 'b action" where
  "bind m f =
     (case m of
        (evs, Inl e) \<Rightarrow> (evs, Inl e)
      | (evs, Inr x) \<Rightarrow> (case f x of (evs', r) \<Rightarrow> (evs @ evs', r)))"

text \<open>\<^verbatim>\<open>try { m } catch (e) { h e }\<close>\<close>

definition try_catch :: "'a action \<Rightarrow> (exn \<Rightarrow> 'a action) \<Rightarrow> 'a action" where
  "try_catch m h =
     (case m of
        (evs, Inl e) \<Rightarrow> (case h e of (evs', r) \<Rightarrow> (evs @ evs', r))
      | (evs, Inr x) \<Rightarrow> (evs, Inr x))"

definition trace :: "'a action \<Rightarrow> event list" where
  "trace m = fst m"

definition result :: "'a action \<Rightarrow> exn + 'a" where
  "result m = snd m"

definition rejects :: "'a action \<Rightarrow> bool" where
  "rejects m = isl (snd m)"

subsection \<open>Two calls side by side\<close>

text \<open>
  A call of an async function runs without interruption until it awaits something that
  has not arrived yet. Inside \<^verbatim>\<open>linkGitHubAction\<close>, \<^verbatim>\<open>detectBranches\<close> and
  \<^verbatim>\<open>uploadPlanFiles\<close> the only awaits are those of \<^verbatim>\<open>http.post\<close> and of \<^verbatim>\<open>readBody\<close> on
  its response (\<^verbatim>\<open>execSync\<close> blocks), so such a call gives up control exactly after each
  request it sends. \<open>segments\<close> cuts the effects of a call at these points: the first
  segment happens when the function is called, each later one when the awaited response or
  error has arrived. A call that ends on a request has an empty last segment, in which it
  returns or throws.
\<close>

fun is_Post :: "event \<Rightarrow> bool" where
  "is_Post (Post url body headers) = True"
| "is_Post ev = False"

fun segments :: "event list \<Rightarrow> event list list" where
  "segments [] = [[]]"
| "segments (ev # evs) =
     (if is_Post ev then [ev] # segments evs
      else (case segments evs of [] \<Rightarrow> [[ev]] | s # ss \<Rightarrow> (ev # s) # ss))"

text \<open>
  A computation together with the effects of detached calls: calls that were started
  inside it and are still running when it ends. Their effects happen later.
\<close>

type_synonym 'a task = "'a action \<times> event list"

text \<open>
  Two calls that both wait: \<open>xs\<close> and \<open>ys\<close> are the segments they still have to run,
  \<open>ra\<close> and \<open>rb\<close> how they end. A call with no segment left has ended. As soon as one
  call has thrown, the wait for both ends with that error and the other call is detached;
  otherwise the wait ends when both calls have ended.
\<close>

fun race :: "(nat \<Rightarrow> bool) \<Rightarrow> nat \<Rightarrow> event list list \<Rightarrow> exn + unit
    \<Rightarrow> event list list \<Rightarrow> exn + unit \<Rightarrow> unit task" where
  "race first k [] ra ys rb =
     (case ra of
        Inl e \<Rightarrow> (([], Inl e), concat ys)
      | Inr u \<Rightarrow> ((concat ys, rb), []))"
| "race first k (x # xs) ra [] rb =
     (case rb of
        Inl e \<Rightarrow> (([], Inl e), concat (x # xs))
      | Inr u \<Rightarrow> ((concat (x # xs), ra), []))"
| "race first k (x # xs) ra (y # ys) rb =
     (if first k then
        (case race first (Suc k) xs ra (y # ys) rb of
           ((evs, r), late) \<Rightarrow> ((x @ evs, r), late))
      else
        (case race first (Suc k) (x # xs) ra ys rb of
           ((evs, r), late) \<Rightarrow> ((y @ evs, r), late)))"

text \<open>
  \<^verbatim>\<open>await Promise.all([a, b])\<close> for two calls of async functions: \<open>a\<close> is called and
  runs its first segment, then \<open>b\<close> is called and runs its first segment, then both wait.
\<close>

definition promise_all :: "world \<Rightarrow> unit action \<Rightarrow> unit action \<Rightarrow> unit task" where
  "promise_all w a b =
     (let xs = segments (fst a); ys = segments (fst b) in
      case race (arrival w) 0 (tl xs) (snd a) (tl ys) (snd b) of
        ((evs, r), late) \<Rightarrow> ((hd xs @ hd ys @ evs, r), late))"

text \<open>A computation that starts no call it does not wait for.\<close>

definition alone :: "'a action \<Rightarrow> 'a task" where
  "alone m = (m, [])"

text \<open>Sequencing, when the second computation may leave calls detached.\<close>

definition bind_task :: "'a action \<Rightarrow> ('a \<Rightarrow> 'b task) \<Rightarrow> 'b task" where
  "bind_task m f =
     (case m of
        (evs, Inl e) \<Rightarrow> ((evs, Inl e), [])
      | (evs, Inr x) \<Rightarrow> (case f x of ((evs', r), late) \<Rightarrow> ((evs @ evs', r), late)))"

text \<open>
  \<^verbatim>\<open>try { t } catch (e) { h e }\<close> as the last statement of a program, with a handler that
  awaits nothing: the handler runs at once, and the effects of the detached calls follow.
\<close>

definition try_catch_task :: "'a task \<Rightarrow> (exn \<Rightarrow> 'a action) \<Rightarrow> 'a action" where
  "try_catch_task t h =
     (case t of
        ((evs, Inl e), late) \<Rightarrow> (case h e of (evs', r) \<Rightarrow> (evs @ evs' @ late, r))
      | ((evs, Inr x), late) \<Rightarrow> (evs @ late, Inr x))"

text \<open>
  The terminal state of the process: \<^verbatim>\<open>core.setFailed\<close> sets the exit code to 1, and
  nothing else in either program does.
\<close>

fun is_SetFailed :: "event \<Rightarrow> bool" where
  "is_SetFailed (SetFailed m) = True"
| "is_SetFailed ev = False"

fun is_Warning :: "event \<Rightarrow> bool" where
  "is_Warning (Warning m) = True"
| "is_Warning ev = False"

definition failed :: "event list \<Rightarrow> bool" where
  "failed t = list_ex is_SetFailed t"

subsection \<open>The library calls\<close>

definition info :: "part list \<Rightarrow> unit action" where
  "info m = emit (Info m)"

definition warning :: "part list \<Rightarrow> unit action" where
  "warning m = emit (Warning m)"

definition debug :: "part list \<Rightarrow> unit action" where
  "debug m = emit (Debug m)"

definition setFailed :: "string \<Rightarrow> unit action" where
  "setFailed m = emit (SetFailed m)"

definition setOutput :: "string \<Rightarrow> jsval \<Rightarrow> unit action" where
  "setOutput name v = emit (SetOutput name v)"

text \<open>
  \<^verbatim>\<open>String.prototype.trim\<close> removes white space and line terminators at both ends. The
  characters it removes, in UTF-8: U+0009 to U+000D, U+0020, U+00A0, U+1680, U+2000 to
  U+200A, U+2028, U+2029, U+202F, U+205F, U+3000 and U+FEFF.
\<close>

definition is_space :: "char \<Rightarrow> bool" where
  "is_space c = (c = CHR 0x09 \<or> c = CHR 0x0A \<or> c = CHR 0x0B \<or> c = CHR 0x0C
     \<or> c = CHR 0x0D \<or> c = CHR 0x20)"

definition white_space :: "string list" where
  "white_space =
     [[CHR 0x09], [CHR 0x0A], [CHR 0x0B], [CHR 0x0C], [CHR 0x0D], [CHR 0x20],
      [CHR 0xC2, CHR 0xA0],
      [CHR 0xE1, CHR 0x9A, CHR 0x80],
      [CHR 0xE2, CHR 0x80, CHR 0x80], [CHR 0xE2, CHR 0x80, CHR 0x81],
      [CHR 0xE2, CHR 0x80, CHR 0x82], [CHR 0xE2, CHR 0x80, CHR 0x83],
      [CHR 0xE2, CHR 0x80, CHR 0x84], [CHR 0xE2, CHR 0x80, CHR 0x85],
      [CHR 0xE2, CHR 0x80, CHR 0x86], [CHR 0xE2, CHR 0x80, CHR 0x87],
      [CHR 0xE2, CHR 0x80, CHR 0x88], [CHR 0xE2, CHR 0x80, CHR 0x89],
      [CHR 0xE2, CHR 0x80, CHR 0x8A],
      [CHR 0xE2, CHR 0x80, CHR 0xA8], [CHR 0xE2, CHR 0x80, CHR 0xA9],
      [CHR 0xE2, CHR 0x80, CHR 0xAF],
      [CHR 0xE2, CHR 0x81, CHR 0x9F],
      [CHR 0xE3, CHR 0x80, CHR 0x80],
      [CHR 0xEF, CHR 0xBB, CHR 0xBF]]"

text \<open>Removing from the front of \<open>s\<close> every leading occurrence of one of \<open>ps\<close>.\<close>

function strip_front :: "string list \<Rightarrow> string \<Rightarrow> string" where
  "strip_front ps s =
     (case find (\<lambda>p. p \<noteq> [] \<and> prefix p s) ps of
        None \<Rightarrow> s
      | Some p \<Rightarrow> strip_front ps (drop (length p) s))"
  by pat_completeness auto

termination
  by (relation "measure (\<lambda>(ps, s). length s)") (auto simp: find_Some_iff prefix_def)

declare strip_front.simps [simp del]

definition js_trim :: "string \<Rightarrow> string" where
  "js_trim s = rev (strip_front (map rev white_space) (rev (strip_front white_space s)))"

text \<open>
  \<^verbatim>\<open>s.length\<close>, the number of UTF-16 code units of the string: one for every character,
  and one more for every character that takes four bytes.
\<close>

definition js_length :: "string \<Rightarrow> nat" where
  "js_length s =
     length (filter (\<lambda>c. \<not> (128 \<le> (of_char c :: nat) \<and> (of_char c :: nat) < 192)) s)
     + length (filter (\<lambda>c. 240 \<le> (of_char c :: nat)) s)"

text \<open>
  \<^verbatim>\<open>core.getInput(name, { required })\<close> of \<^verbatim>\<open>@actions/core\<close>: a required input
  whose raw value is empty throws; otherwise the value is returned trimmed.
\<close>

definition getInput :: "world \<Rightarrow> string \<Rightarrow> bool \<Rightarrow> string action" where
  "getInput w name required =
     (let val = input w name in
      if required \<and> val = [] then throw (Error (''Input required and not supplied: '' @ name))
      else ret (js_trim val))"

text \<open>\<^verbatim>\<open>await http.post(url, JSON.stringify(body), headers)\<close>\<close>

definition post :: "world \<Rightarrow> string \<Rightarrow> jsval \<Rightarrow> (string \<times> string) list \<Rightarrow> response action" where
  "post w url body headers = bind (emit (Post url body headers)) (\<lambda>u. lift (http_post w url body headers))"

text \<open>
  Property access \<^verbatim>\<open>v.k\<close>, for the properties the programs read (\<^verbatim>\<open>success\<close>,
  \<^verbatim>\<open>message\<close>, \<^verbatim>\<open>githubToken\<close>, \<^verbatim>\<open>registered_pull_requests\<close>, \<^verbatim>\<open>length\<close>): it throws a
  \<^verbatim>\<open>TypeError\<close> on \<^verbatim>\<open>null\<close> and \<^verbatim>\<open>undefined\<close>. A property that a parsed object
  does not have reads as \<^verbatim>\<open>undefined\<close> (\<open>field\<close>).
\<close>

definition field :: "(string \<times> jsval) list \<Rightarrow> string \<Rightarrow> jsval" where
  "field kvs k = (case map_of kvs k of None \<Rightarrow> JUndefined | Some v \<Rightarrow> v)"

fun js_member :: "jsval \<Rightarrow> string \<Rightarrow> exn + jsval" where
  "js_member JUndefined k = Inl (Error (''Cannot read properties of undefined (reading '' @ k @ '')''))"
| "js_member JNull k = Inl (Error (''Cannot read properties of null (reading '' @ k @ '')''))"
| "js_member (JObj kvs) k = Inr (field kvs k)"
| "js_member (JStr s) k = Inr (if k = ''length'' then JNum (of_nat (js_length s)) else JUndefined)"
| "js_member (JArr xs) k = Inr (if k = ''length'' then JNum (of_nat (length xs)) else JUndefined)"
| "js_member (JBool b) k = Inr JUndefined"
| "js_member (JNum n) k = Inr JUndefined"

fun truthy :: "jsval \<Rightarrow> bool" where
  "truthy JUndefined = False"
| "truthy JNull = False"
| "truthy (JBool b) = b"
| "truthy (JNum n) = (n \<noteq> 0)"
| "truthy (JStr s) = (s \<noteq> [])"
| "truthy (JArr xs) = True"
| "truthy (JObj kvs) = True"

text \<open>\<^verbatim>\<open>v > 0\<close>\<close>

definition js_gt_zero :: "world \<Rightarrow> jsval \<Rightarrow> bool" where
  "js_gt_zero w v =
     (case v of
        JUndefined \<Rightarrow> False
      | JNull \<Rightarrow> False
      | JBool b \<Rightarrow> b
      | JNum n \<Rightarrow> n > 0
      | other \<Rightarrow> (case to_number w other of None \<Rightarrow> False | Some n \<Rightarrow> n > 0))"

text \<open>\<^verbatim>\<open>s.split("\n")\<close>\<close>

fun split_nl :: "string \<Rightarrow> string list" where
  "split_nl [] = [[]]"
| "split_nl (c # cs) =
     (if c = CHR 0x0A then [] # split_nl cs
      else (case split_nl cs of [] \<Rightarrow> [[c]] | l # ls \<Rightarrow> (c # l) # ls))"

text \<open>\<^verbatim>\<open>xs.join(sep)\<close>\<close>

fun js_join :: "string \<Rightarrow> string list \<Rightarrow> string" where
  "js_join sep [] = []"
| "js_join sep [x] = x"
| "js_join sep (x # y # ys) = x @ sep @ js_join sep (y # ys)"

text \<open>\<^verbatim>\<open>for (const x of xs) { body }\<close>: a throwing body ends the loop.\<close>

fun for_each :: "('a \<Rightarrow> unit action) \<Rightarrow> 'a list \<Rightarrow> unit action" where
  "for_each body [] = ret ()"
| "for_each body (x # xs) = bind (body x) (\<lambda>u. for_each body xs)"

section \<open>The shell\<close>

text \<open>
  \<^verbatim>\<open>detectBranches\<close> runs
  \<^verbatim>\<open>git branch --format='%(refname:short)' | grep -v '^${defaultBaseBranch}$' | head -20\<close>.
  The exit status of a pipeline is that of its last command, so a failing \<^verbatim>\<open>git\<close> or
  a \<^verbatim>\<open>grep\<close> that selects nothing does not make \<^verbatim>\<open>execSync\<close> throw.
\<close>

definition branchCommand :: "string \<Rightarrow> string" where
  "branchCommand defaultBaseBranch =
     ''git branch --format='' @ [CHR 0x27] @ ''%(refname:short)'' @ [CHR 0x27]
       @ '' | grep -v '' @ [CHR 0x27] @ ''^'' @ defaultBaseBranch @ ''$'' @ [CHR 0x27]
       @ '' | head -20''"

text \<open>
  How the shell reads a command. \<open>strip_prefix p s\<close> is what follows \<open>p\<close> in \<open>s\<close>, and
  \<open>strip_suffix p s\<close> what precedes \<open>p\<close>. A command of the form
  \<^verbatim>\<open>git branch --format='%(refname:short)' | grep -v 'PATTERN' | head -20\<close> is the branch
  pipeline with that pattern, and a pattern \<^verbatim>\<open>^BASE$\<close> is anchored at both ends.
\<close>

fun strip_prefix :: "string \<Rightarrow> string \<Rightarrow> string option" where
  "strip_prefix [] s = Some s"
| "strip_prefix (c # p) [] = None"
| "strip_prefix (c # p) (d # s) = (if c = d then strip_prefix p s else None)"

definition strip_suffix :: "string \<Rightarrow> string \<Rightarrow> string option" where
  "strip_suffix p s = map_option rev (strip_prefix (rev p) (rev s))"

definition branch_pipeline :: "string \<Rightarrow> string option" where
  "branch_pipeline command =
     (case strip_prefix (''git branch --format='' @ [CHR 0x27] @ ''%(refname:short)'' @ [CHR 0x27]
                          @ '' | grep -v '' @ [CHR 0x27]) command of
        None \<Rightarrow> None
      | Some rest \<Rightarrow> strip_suffix ([CHR 0x27] @ '' | head -20'') rest)"

definition anchored :: "string \<Rightarrow> string option" where
  "anchored pattern =
     (case strip_prefix ''^'' pattern of
        None \<Rightarrow> None
      | Some rest \<Rightarrow> strip_suffix ''$'' rest)"

text \<open>
  The lines of a text, as \<^verbatim>\<open>grep\<close> and \<^verbatim>\<open>head\<close> read them: a final newline ends
  the last line and starts no new one.
\<close>

definition text_lines :: "string \<Rightarrow> string list" where
  "text_lines s = (let ls = split_nl s in if last ls = [] then butlast ls else ls)"

text \<open>
  The pattern is a basic regular expression. The model covers ordinary characters,
  \<^verbatim>\<open>.\<close> (any character) and \<^verbatim>\<open>*\<close> (any number of the preceding item; an ordinary
  character at the very start of the expression). One item of the expression:
\<close>

datatype atom = Chr char | Any

datatype item = One atom | Star atom

definition atom_of :: "char \<Rightarrow> atom" where
  "atom_of c = (if c = CHR ''.'' then Any else Chr c)"

text \<open>Reading the expression from the left; \<open>acc\<close> holds the items read, last first.\<close>

fun bre_items :: "item list \<Rightarrow> string \<Rightarrow> item list" where
  "bre_items acc [] = rev acc"
| "bre_items acc (c # cs) =
     (if c = CHR ''*'' then
        (case acc of
           [] \<Rightarrow> bre_items [One (Chr c)] cs
         | One a # r \<Rightarrow> bre_items (Star a # r) cs
         | Star a # r \<Rightarrow> bre_items (Star a # r) cs)
      else bre_items (One (atom_of c) # acc) cs)"

fun atom_ok :: "atom \<Rightarrow> char \<Rightarrow> bool" where
  "atom_ok (Chr a) c = (c = a)"
| "atom_ok Any c = True"

fun re_match :: "item list \<Rightarrow> string \<Rightarrow> bool" where
  "re_match [] s = (s = [])"
| "re_match (One a # r) [] = False"
| "re_match (One a # r) (c # cs) = (atom_ok a c \<and> re_match r cs)"
| "re_match (Star a # r) [] = re_match r []"
| "re_match (Star a # r) (c # cs) =
     (re_match r (c # cs) \<or> (atom_ok a c \<and> re_match (Star a # r) cs))"

text \<open>The line is selected by the anchored pattern \<^verbatim>\<open>^base$\<close>.\<close>

definition grep_match :: "string \<Rightarrow> string \<Rightarrow> bool" where
  "grep_match base line = re_match (bre_items [] base) line"

text \<open>
  What the model of the pipeline covers. The expression between the anchors is ASCII text
  with no single quote (it would end the shell's quoting), no backslash, bracket, \<^verbatim>\<open>^\<close> or
  \<^verbatim>\<open>$\<close> (pattern syntax that is not modelled), no newline and no NUL. The text that \<^verbatim>\<open>git\<close>
  writes is ASCII text without NUL: a character is then one byte, whatever the locale, and
  \<^verbatim>\<open>grep\<close> reads its input as text.
\<close>

definition plain_char :: "char \<Rightarrow> bool" where
  "plain_char c = ((of_char c :: nat) < 128 \<and> c \<noteq> CHR 0x27 \<and> c \<noteq> CHR 0x5C \<and> c \<noteq> CHR 0x5B
     \<and> c \<noteq> CHR 0x5E \<and> c \<noteq> CHR 0x24 \<and> c \<noteq> CHR 0x0A \<and> c \<noteq> CHR 0x00)"

definition bre_fragment :: "string \<Rightarrow> bool" where
  "bre_fragment base = list_all plain_char base"

definition ascii_text :: "string \<Rightarrow> bool" where
  "ascii_text s = list_all (\<lambda>c. (of_char c :: nat) < 128 \<and> c \<noteq> CHR 0x00) s"

text \<open>What the three commands of the pipeline write, given the text \<^verbatim>\<open>git\<close> wrote.\<close>

definition pipeline_output :: "string \<Rightarrow> string \<Rightarrow> string" where
  "pipeline_output base git_out =
     concat (map (\<lambda>l. l @ [CHR 0x0A])
       (take 20 (filter (\<lambda>l. \<not> grep_match base l) (text_lines git_out))))"

text \<open>
  What running a command yields or throws. The branch pipeline with an anchored pattern
  that the model covers is computed; the result of every other command is left to the
  world.
\<close>

definition shell :: "world \<Rightarrow> string \<Rightarrow> exn + string" where
  "shell w command =
     (case branch_pipeline command of
        None \<Rightarrow> sh w command
      | Some pattern \<Rightarrow>
          (case anchored pattern of
             None \<Rightarrow> sh w command
           | Some base \<Rightarrow>
               if bre_fragment base \<and> ascii_text (git_branch w) then
                 (case spawn_failure w of
                    Some e \<Rightarrow> Inl e
                  | None \<Rightarrow> Inr (pipeline_output base (git_branch w)))
               else sh w command))"

text \<open>\<^verbatim>\<open>execSync(command, { encoding: "utf-8", cwd: process.cwd() })\<close>\<close>

definition execSync :: "world \<Rightarrow> string \<Rightarrow> string action" where
  "execSync w command = bind (emit (Exec command)) (\<lambda>u. lift (shell w command))"

section \<open>\<^verbatim>\<open>src/bin/postprocess.ts\<close>\<close>

definition json_headers :: "(string \<times> string) list" where
  "json_headers = [(''Content-Type'', ''application/json'')]"

definition auth_headers :: "string \<Rightarrow> (string \<times> string) list" where
  "auth_headers delinoAccessToken =
     [(''Content-Type'', ''application/json''), (''Authorization'', ''Bearer '' @ delinoAccessToken)]"

text \<open>\<^verbatim>\<open>linkGitHubAction\<close>, lines 34 to 67. It has no \<^verbatim>\<open>try\<close> of its own.\<close>

definition linkGitHubAction :: "world \<Rightarrow> string \<Rightarrow> string \<Rightarrow> string \<Rightarrow> string \<Rightarrow> unit action" where
  "linkGitHubAction w baseUrl workflowExecutionToken delinoAccessToken runId =
     bind (info [Lit ''Linking GitHub Action run '', Txt runId, Lit '' to task using token'']) (\<lambda>u.
     bind (post w (baseUrl @ ''/delino.devbird.v1.DevBird/LinkGitHubActionByToken'')
             (JObj [(''workflow_execution_token'', JStr workflowExecutionToken),
                    (''github_run_id'', JStr runId)])
             (auth_headers delinoAccessToken)) (\<lambda>linkResponse.
     bind (lift (readBody linkResponse)) (\<lambda>linkBody.
     if statusCode linkResponse \<noteq> 200 then
       warning [Lit ''Failed to link GitHub Action: '', Txt linkBody]
     else
       bind (lift (JSON_parse w linkBody)) (\<lambda>linkResult.
       bind (lift (js_member linkResult ''success'')) (\<lambda>success.
       if truthy success then
         bind (lift (js_member linkResult ''message'')) (\<lambda>message.
         info [Lit ''Successfully linked GitHub Action run to task: '', Js message])
       else
         bind (lift (js_member linkResult ''message'')) (\<lambda>message.
         warning [Lit ''Failed to link GitHub Action: '', Js message]))))))"

text \<open>
  \<^verbatim>\<open>detectBranches\<close>, lines 75 to 87: the value of \<^verbatim>\<open>branches\<close>, from the base
  branch input.
\<close>

definition defaultBaseBranch :: "string \<Rightarrow> string" where
  "defaultBaseBranch baseBranch = (if baseBranch = [] then ''main'' else baseBranch)"

definition branches_of :: "string \<Rightarrow> string list" where
  "branches_of branchOutput =
     (if branchOutput = [] then []
      else filter (\<lambda>b. length b > 0) (map js_trim (split_nl branchOutput)))"

definition list_branches :: "world \<Rightarrow> string \<Rightarrow> string list action" where
  "list_branches w baseBranch =
     bind (execSync w (branchCommand (defaultBaseBranch baseBranch))) (\<lambda>out.
     ret (branches_of (js_trim out)))"

text \<open>\<^verbatim>\<open>detectBranches\<close>, lines 69 to 135.\<close>

definition detectBranches :: "world \<Rightarrow> string \<Rightarrow> string \<Rightarrow> string \<Rightarrow> string \<Rightarrow> unit action" where
  "detectBranches w baseUrl workflowExecutionToken delinoAccessToken baseBranch =
     bind (info [Lit ''Detecting newly created branches...'']) (\<lambda>u.
     try_catch
       (bind (list_branches w baseBranch) (\<lambda>branches.
        bind (info [Lit ''Found '', Count (length branches), Lit '' branches: '',
                    Txt (js_join '', '' branches)]) (\<lambda>u.
        bind (post w (baseUrl @ ''/delino.devbird.v1.DevBird/RegisterBranchesByToken'')
                (JObj [(''workflow_execution_token'', JStr workflowExecutionToken),
                       (''branch_names'', JArr (map JStr branches))])
                (auth_headers delinoAccessToken)) (\<lambda>branchResponse.
        bind (lift (readBody branchResponse)) (\<lambda>branchBody.
        if statusCode branchResponse \<noteq> 200 then
          warning [Lit ''Failed to register branches: '', Txt branchBody]
        else
          bind (lift (JSON_parse w branchBody)) (\<lambda>branchResult.
          bind (lift (js_member branchResult ''success'')) (\<lambda>success.
          if truthy success then
            bind (lift (js_member branchResult ''message'')) (\<lambda>message.
            bind (info [Lit ''Successfully registered branches: '', Js message]) (\<lambda>u.
            bind (lift (js_member branchResult ''registered_pull_requests'')) (\<lambda>prs.
            if truthy prs then
              bind (lift (js_member prs ''length'')) (\<lambda>n.
              if js_gt_zero w n then
                info [Lit ''Found '', Js n, Lit '' existing PRs for these branches'']
              else ret ())
            else ret ())))
          else
            bind (lift (js_member branchResult ''message'')) (\<lambda>message.
            warning [Lit ''Failed to register branches: '', Js message]))))))))
       (\<lambda>branchError. warning [Lit ''Error detecting branches: '', Err branchError]))"

text \<open>The body of the loop of \<^verbatim>\<open>uploadPlanFiles\<close>, lines 154 to 203.\<close>

definition uploadPlanFile :: "world \<Rightarrow> string \<Rightarrow> string \<Rightarrow> string \<Rightarrow> string \<Rightarrow> unit action" where
  "uploadPlanFile w baseUrl workflowExecutionToken delinoAccessToken planFile =
     bind (info [Lit ''Found plan file: '', Txt planFile]) (\<lambda>u.
     try_catch
       (bind (execSync w (''cat '' @ planFile)) (\<lambda>planContent.
        bind (post w (baseUrl @ ''/delino.devbird.v1.DevBird/UploadTaskGraphPlanByToken'')
                (JObj [(''workflow_execution_token'', JStr workflowExecutionToken),
                       (''plan_filename'', JStr planFile),
                       (''plan_content'', JStr planContent)])
                (auth_headers delinoAccessToken)) (\<lambda>planResponse.
        bind (lift (readBody planResponse)) (\<lambda>planBody.
        if statusCode planResponse \<noteq> 200 then
          warning [Lit ''Failed to upload plan file '', Txt planFile, Lit '': '', Txt planBody]
        else
          bind (lift (JSON_parse w planBody)) (\<lambda>planResult.
          bind (lift (js_member planResult ''success'')) (\<lambda>success.
          if truthy success then
            bind (lift (js_member planResult ''message'')) (\<lambda>message.
            info [Lit ''Successfully uploaded plan file '', Txt planFile, Lit '': '', Js message])
          else
            bind (lift (js_member planResult ''message'')) (\<lambda>message.
            warning [Lit ''Failed to upload plan file '', Txt planFile, Lit '': '', Js message])))))))
       (\<lambda>fileError.
          warning [Lit ''Error processing plan file '', Txt planFile, Lit '': '', Err fileError]))"

text \<open>\<^verbatim>\<open>uploadPlanFiles\<close>, lines 137 to 211.\<close>

definition planFileList_of :: "string \<Rightarrow> string list" where
  "planFileList_of planFiles = filter (\<lambda>f. length f > 0) (map js_trim (split_nl planFiles))"

definition uploadPlanFiles :: "world \<Rightarrow> string \<Rightarrow> string \<Rightarrow> string \<Rightarrow> unit action" where
  "uploadPlanFiles w baseUrl workflowExecutionToken delinoAccessToken =
     bind (info [Lit ''Detecting plan files...'']) (\<lambda>u.
     try_catch
       (bind (execSync w ''ls PLAN-*.yaml 2>/dev/null || true'') (\<lambda>out.
        let planFiles = js_trim out in
        if planFiles \<noteq> [] then
          for_each (uploadPlanFile w baseUrl workflowExecutionToken delinoAccessToken)
            (planFileList_of planFiles)
        else info [Lit ''No plan files found to upload'']))
       (\<lambda>planError. warning [Lit ''Error detecting plan files: '', Err planError]))"

text \<open>The \<^verbatim>\<open>catch\<close> block that closes \<^verbatim>\<open>run\<close> in both programs.\<close>

definition run_catch :: "exn \<Rightarrow> unit action" where
  "run_catch error =
     (case error of
        Error message \<Rightarrow> setFailed message
      | NonError \<Rightarrow> setFailed ''Unknown error occurred'')"

text \<open>\<^verbatim>\<open>process.env.DEVBIRD_API_URL || "https://devbird.api.delino.io"\<close>\<close>

definition devbird_api :: "world \<Rightarrow> string" where
  "devbird_api w =
     (if env w ''DEVBIRD_API_URL'' = [] then ''https://devbird.api.delino.io''
      else env w ''DEVBIRD_API_URL'')"

text \<open>
  The value of \<^verbatim>\<open>devbirdMode\<close> in \<^verbatim>\<open>run\<close>:
  \<^verbatim>\<open>core.getInput("devbird_mode", { required: false }) || "develop"\<close>.
\<close>

definition devbirdMode :: "world \<Rightarrow> string" where
  "devbirdMode w =
     (let m = js_trim (input w ''devbird_mode'') in if m = [] then ''develop'' else m)"

text \<open>
  \<^verbatim>\<open>run\<close> of \<^verbatim>\<open>postprocess.ts\<close>: first the \<^verbatim>\<open>try\<close> block, lines 8 to 220. Its last
  statement is the \<^verbatim>\<open>await Promise.all\<close> of the selected mode.
\<close>

definition postprocess_body :: "world \<Rightarrow> unit task" where
  "postprocess_body w =
     bind_task (getInput w ''devbird_workflow_execution_token'' True) (\<lambda>workflowExecutionToken.
     if workflowExecutionToken = [] then alone (warning [Lit ''No task token provided''])
     else
       bind_task (getInput w ''delino_access_token'' True) (\<lambda>delinoAccessToken.
       bind_task (getInput w ''base_branch'' False) (\<lambda>baseBranch.
       bind_task (getInput w ''devbird_mode'' False) (\<lambda>m.
       let devbirdMode = (if m = [] then ''develop'' else m);
           runId = run_id w;
           baseUrl = devbird_api w
       in
       if devbirdMode = ''plan'' then
         bind_task (info [Lit ''Running in plan mode - only uploading plan files'']) (\<lambda>u.
         promise_all w
           (linkGitHubAction w baseUrl workflowExecutionToken delinoAccessToken runId)
           (uploadPlanFiles w baseUrl workflowExecutionToken delinoAccessToken))
       else
         bind_task (info [Lit ''Running in develop mode - only detecting branches'']) (\<lambda>u.
         promise_all w
           (linkGitHubAction w baseUrl workflowExecutionToken delinoAccessToken runId)
           (detectBranches w baseUrl workflowExecutionToken delinoAccessToken baseBranch))))))"

definition postprocess_run :: "world \<Rightarrow> unit action" where
  "postprocess_run w = try_catch_task (postprocess_body w) run_catch"

section \<open>The preparation step (\<^verbatim>\<open>src/unnamed/part_000\<close>)\<close>

text \<open>\<^verbatim>\<open>process.env.AUTODEV_API_URL || "https://autodev.api.delino.io"\<close>\<close>

definition autodev_api :: "world \<Rightarrow> string" where
  "autodev_api w =
     (if env w ''AUTODEV_API_URL'' = [] then ''https://autodev.api.delino.io''
      else env w ''AUTODEV_API_URL'')"

text \<open>
  The \<^verbatim>\<open>try\<close> block of the token exchange, lines 26 to 73. Its value is the value of
  the variable \<^verbatim>\<open>githubToken\<close> when the block ends (the variable starts as \<^verbatim>\<open>""\<close>);
  \<open>both\<close> is the value of \<^verbatim>\<open>result.success && result.githubToken\<close>.
\<close>

definition exchangeOIDCToken :: "world \<Rightarrow> jsval action" where
  "exchangeOIDCToken w =
     bind (info [Lit ''Requesting GitHub OIDC token...'']) (\<lambda>u.
     bind (lift (getIDToken w)) (\<lambda>oidcToken.
     if oidcToken \<noteq> [] then
       bind (info [Lit ''OIDC token obtained, exchanging for GitHub App installation token...'']) (\<lambda>u.
       let baseUrl = autodev_api w;
           endpoint = baseUrl @ ''/delino.autodev.v1.AutoDev/ExchangeOIDCTokenForGitHubToken''
       in
       bind (post w endpoint
               (JObj [(''oidc_token'', JStr oidcToken),
                      (''repository_owner'', JStr (repo_owner w)),
                      (''repository_name'', JStr (repo_name w))])
               json_headers) (\<lambda>response.
       bind (lift (readBody response)) (\<lambda>body.
       if statusCode response = 200 then
         bind (lift (JSON_parse w body)) (\<lambda>result.
         bind (lift (js_member result ''success'')) (\<lambda>success.
         bind (if truthy success then lift (js_member result ''githubToken'') else ret success) (\<lambda>both.
         if truthy both then
           bind (lift (js_member result ''githubToken'')) (\<lambda>githubToken.
           bind (info [Lit ''Successfully obtained GitHub App installation token via OIDC'']) (\<lambda>u.
           bind (emit (SetSecret githubToken)) (\<lambda>u.
           bind (emit (ExportVariable ''githubToken'' githubToken)) (\<lambda>u.
           bind (setOutput ''github_token'' githubToken) (\<lambda>u.
           ret githubToken)))))
         else
           bind (warning [Lit ''Failed to exchange OIDC token: '', Json result]) (\<lambda>u.
           ret (JStr [])))))
       else
         bind (warning [Lit ''Failed to exchange OIDC token: HTTP '', Count (statusCode response)]) (\<lambda>u.
         ret (JStr [])))))
     else ret (JStr [])))"

text \<open>The \<^verbatim>\<open>try\<close> with its \<^verbatim>\<open>catch (oidcError)\<close>, lines 25 to 77.\<close>

definition obtainGithubToken :: "world \<Rightarrow> jsval action" where
  "obtainGithubToken w =
     try_catch (exchangeOIDCToken w) (\<lambda>oidcError.
       bind (info [Lit ''OIDC token not available, will use provided tokens'']) (\<lambda>u.
       bind (debug [Lit ''OIDC error: '', Err oidcError]) (\<lambda>u.
       ret (JStr []))))"

text \<open>The linking step of the preparation, lines 92 to 128.\<close>

definition prepare_link :: "world \<Rightarrow> string \<Rightarrow> string \<Rightarrow> unit action" where
  "prepare_link w workflowExecutionToken delinoAccessToken =
     (let runId = run_id w in
      bind (info [Lit ''Linking GitHub Action run '', Txt runId, Lit '' to task'']) (\<lambda>u.
      try_catch
        (let baseUrl = autodev_api w;
             endpoint = baseUrl @ ''/delino.autodev.v1.AutoDev/LinkGitHubActionByToken''
         in
         bind (post w endpoint
                 (JObj [(''workflow_execution_token'', JStr workflowExecutionToken),
                        (''github_run_id'', JStr runId)])
                 (auth_headers delinoAccessToken)) (\<lambda>response.
         bind (lift (readBody response)) (\<lambda>body.
         if statusCode response = 200 then
           bind (lift (JSON_parse w body)) (\<lambda>result.
           bind (lift (js_member result ''success'')) (\<lambda>success.
           if truthy success then
             bind (lift (js_member result ''message'')) (\<lambda>message.
             info [Lit ''Successfully linked GitHub Action run to task: '', Js message])
           else
             bind (lift (js_member result ''message'')) (\<lambda>message.
             warning [Lit ''Failed to link GitHub Action: '', Js message])))
         else
           warning [Lit ''Failed to link GitHub Action: HTTP '', Count (statusCode response)])))
        (\<lambda>linkError. warning [Lit ''Error linking GitHub Action: '', Err linkError])))"

text \<open>\<^verbatim>\<open>run\<close> of the preparation step: first the \<^verbatim>\<open>try\<close> block, lines 7 to 131.\<close>

definition prepare_body :: "world \<Rightarrow> unit action" where
  "prepare_body w =
     bind (getInput w ''autodev_workflow_execution_token'' True) (\<lambda>workflowExecutionToken.
     bind (getInput w ''delino_access_token'' False) (\<lambda>delinoAccessToken.
     bind (getInput w ''base_branch'' False) (\<lambda>baseBranch.
     bind (getInput w ''agent'' True) (\<lambda>agent.
     bind (getInput w ''agent_model'' False) (\<lambda>agentModel.
     bind (obtainGithubToken w) (\<lambda>githubToken.
     bind (info [Lit ''Preparing AutoDev environment for '', Txt agent, Lit '' agent'']) (\<lambda>u.
     bind (info [Lit ''Repository: '', Txt (repo_owner w), Lit ''/'', Txt (repo_name w)]) (\<lambda>u.
     bind (info [Lit ''Base branch: '', Txt (if baseBranch = [] then ''default'' else baseBranch)]) (\<lambda>u.
     bind (setOutput ''workflow_execution_token'' (JStr workflowExecutionToken)) (\<lambda>u.
     bind (setOutput ''agent'' (JStr agent)) (\<lambda>u.
     bind (setOutput ''agent_model'' (JStr agentModel)) (\<lambda>u.
     bind (setOutput ''githubToken_obtained''
             (JStr (if truthy githubToken then ''true'' else ''false''))) (\<lambda>u.
     bind (if delinoAccessToken \<noteq> [] \<and> workflowExecutionToken \<noteq> []
           then prepare_link w workflowExecutionToken delinoAccessToken
           else ret ()) (\<lambda>u.
     info [Lit ''Preparation complete'']))))))))))))))"

definition prepare_run :: "world \<Rightarrow> unit action" where
  "prepare_run w = try_catch (prepare_body w) run_catch"

section \<open>Concrete worlds\<close>

definition inputs_of :: "(string \<times> string) list \<Rightarrow> string \<Rightarrow> string" where
  "inputs_of kvs name = (case map_of kvs name of None \<Rightarrow> [] | Some v \<Rightarrow> v)"

definition ok_response :: response where
  "ok_response = \<lparr> statusCode = 200, readBody = Inr ''{\"success\":true,\"message\":\"ok\"}'' \<rparr>"

definition ok_json :: jsval where
  "ok_json = JObj [(''success'', JBool True), (''message'', JStr ''ok'')]"

text \<open>
  A repository with no input set, a backend that answers every request with status 200
  and \<^verbatim>\<open>{"success":true,"message":"ok"}\<close>, no OIDC provider, an empty working directory,
  and a network on which the first of two calls is always answered first.
\<close>

definition healthy :: world where
  "healthy = \<lparr>
     input = inputs_of [],
     env = (\<lambda>name. []),
     run_id = ''42'',
     repo_owner = ''octo'',
     repo_name = ''demo'',
     getIDToken = Inl (Error ''Unable to get ACTIONS_ID_TOKEN_REQUEST_URL env variable''),
     http_post = (\<lambda>url body headers. Inr ok_response),
     JSON_parse = (\<lambda>s. if s = ''{\"success\":true,\"message\":\"ok\"}'' then Inr ok_json
                         else Inl (Error ''Unexpected token'')),
     to_number = (\<lambda>v. None),
     sh = (\<lambda>command. Inr []),
     git_branch = [],
     spawn_failure = None,
     arrival = (\<lambda>k. True) \<rparr>"

text \<open>The same repository with the access token supplied and the workflow token absent.\<close>

definition no_token :: world where
  "no_token = healthy\<lparr>input := inputs_of [(''delino_access_token'', ''acc'')]\<rparr>"

text \<open>Both tokens supplied, and a backend that cannot be reached.\<close>

definition unreachable :: world where
  "unreachable = healthy\<lparr>
     input := inputs_of [(''devbird_workflow_execution_token'', ''tok''),
                         (''delino_access_token'', ''acc'')],
     http_post := (\<lambda>url body headers. Inl (Error ''connect ECONNREFUSED''))\<rparr>"

section \<open>Predicates on computations\<close>

text \<open>Every effect of the computation satisfies \<open>P\<close>.\<close>

definition only :: "(event \<Rightarrow> bool) \<Rightarrow> 'a action \<Rightarrow> bool" where
  "only P m = list_all P (fst m)"

text \<open>The same for a computation with detached calls.\<close>

definition only_task :: "(event \<Rightarrow> bool) \<Rightarrow> 'a task \<Rightarrow> bool" where
  "only_task P t = (list_all P (fst (fst t)) \<and> list_all P (snd t))"

text \<open>Trimming a text that is ASCII: only the six ASCII white space characters go.\<close>

definition ascii :: "string \<Rightarrow> bool" where
  "ascii s = list_all (\<lambda>c. (of_char c :: nat) < 128) s"

definition trim_ascii :: "string \<Rightarrow> string" where
  "trim_ascii s = rev (dropWhile is_space (rev (dropWhile is_space s)))"

text \<open>The trimmed lines of an ASCII text that are not empty.\<close>

definition branches_ascii :: "string \<Rightarrow> string list" where
  "branches_ascii s = filter (\<lambda>b. b \<noteq> []) (map trim_ascii (split_nl s))"


subsection \<open>The preparation step\<close>

text \<open>The response to the token exchange call, and the call as an effect.\<close>

definition exchange_response :: "world \<Rightarrow> string \<Rightarrow> exn + response" where
  "exchange_response w oidcToken =
     http_post w (autodev_api w @ ''/delino.autodev.v1.AutoDev/ExchangeOIDCTokenForGitHubToken'')
       (JObj [(''oidc_token'', JStr oidcToken),
              (''repository_owner'', JStr (repo_owner w)),
              (''repository_name'', JStr (repo_name w))])
       json_headers"

definition exchange_request :: "world \<Rightarrow> string \<Rightarrow> event" where
  "exchange_request w oidcToken =
     Post (autodev_api w @ ''/delino.autodev.v1.AutoDev/ExchangeOIDCTokenForGitHubToken'')
       (JObj [(''oidc_token'', JStr oidcToken),
              (''repository_owner'', JStr (repo_owner w)),
              (''repository_name'', JStr (repo_name w))])
       json_headers"

text \<open>The value of the variable \<^verbatim>\<open>githubToken\<close> after line 77.\<close>

definition githubToken_after :: "world \<Rightarrow> jsval" where
  "githubToken_after w = (case result (obtainGithubToken w) of Inl e \<Rightarrow> JStr [] | Inr g \<Rightarrow> g)"

text \<open>The effects that publish a value: an output, an exported variable, a secret mask.\<close>

fun is_publication :: "event \<Rightarrow> bool" where
  "is_publication (SetSecret v) = True"
| "is_publication (ExportVariable n v) = True"
| "is_publication (SetOutput n v) = True"
| "is_publication ev = False"

text \<open>The effects of lines 80 to 88, when the required inputs are supplied.\<close>

definition prepare_report :: "world \<Rightarrow> event list" where
  "prepare_report w =
     [Info [Lit ''Preparing AutoDev environment for '', Txt (js_trim (input w ''agent'')),
            Lit '' agent''],
      Info [Lit ''Repository: '', Txt (repo_owner w), Lit ''/'', Txt (repo_name w)],
      Info [Lit ''Base branch: '',
            Txt (if js_trim (input w ''base_branch'') = [] then ''default''
                 else js_trim (input w ''base_branch''))],
      SetOutput ''workflow_execution_token''
        (JStr (js_trim (input w ''autodev_workflow_execution_token''))),
      SetOutput ''agent'' (JStr (js_trim (input w ''agent''))),
      SetOutput ''agent_model'' (JStr (js_trim (input w ''agent_model''))),
      SetOutput ''githubToken_obtained''
        (JStr (if truthy (githubToken_after w) then ''true'' else ''false''))]"

text \<open>
  The preparation of the same repository with the agent and the access token supplied:
  once without the workflow token, once with a blank one.
\<close>

definition no_autodev_token :: world where
  "no_autodev_token =
     healthy\<lparr>input := inputs_of [(''agent'', ''claude''), (''delino_access_token'', ''acc'')]\<rparr>"

definition blank_autodev_token :: world where
  "blank_autodev_token =
     healthy\<lparr>input := inputs_of [(''autodev_workflow_execution_token'', '' ''),
                                 (''agent'', ''claude''), (''delino_access_token'', ''acc'')]\<rparr>"

text \<open>The effects of the token exchange up to and including its request.\<close>

definition exchange_prefix :: "world \<Rightarrow> string \<Rightarrow> event list" where
  "exchange_prefix w oidcToken =
     [Info [Lit ''Requesting GitHub OIDC token...''],
      Info [Lit ''OIDC token obtained, exchanging for GitHub App installation token...''],
      exchange_request w oidcToken]"

text \<open>
  \<^verbatim>\<open>v.k\<close> can be read and is truthy. A response grants a token when its body can be
  read, its status is 200, the body parses, and \<^verbatim>\<open>success\<close> and \<^verbatim>\<open>githubToken\<close> of
  the parsed value are both truthy.
\<close>

definition reads_truthy :: "jsval \<Rightarrow> string \<Rightarrow> bool" where
  "reads_truthy v k = (case js_member v k of Inl e \<Rightarrow> False | Inr x \<Rightarrow> truthy x)"

definition grants_token :: "world \<Rightarrow> response \<Rightarrow> bool" where
  "grants_token w r =
     (case readBody r of
        Inl e \<Rightarrow> False
      | Inr body \<Rightarrow>
          statusCode r = 200
          \<and> (case JSON_parse w body of
               Inl e \<Rightarrow> False
             | Inr v \<Rightarrow> reads_truthy v ''success'' \<and> reads_truthy v ''githubToken''))"

text \<open>
  Preparations with an OIDC provider, the required inputs supplied and no access token. The
  exchange endpoint answers with status 200 and a body that is not JSON (\<open>garbled\<close>), with
  status 403 (\<open>denied\<close>), with status 200 and the body \<^verbatim>\<open>null\<close> (\<open>answers_null\<close>), with
  status 200 and \<^verbatim>\<open>{"success":false}\<close> (\<open>refused\<close>), or with status 200 and a token
  (\<open>granted\<close>).
\<close>

definition garbled :: world where
  "garbled = healthy\<lparr>
     input := inputs_of [(''autodev_workflow_execution_token'', ''tok''), (''agent'', ''claude'')],
     getIDToken := Inr ''oidc'',
     http_post := (\<lambda>url body headers. Inr \<lparr>statusCode = 200, readBody = Inr ''<html>''\<rparr>)\<rparr>"

definition denied :: world where
  "denied = healthy\<lparr>
     input := inputs_of [(''autodev_workflow_execution_token'', ''tok''), (''agent'', ''claude'')],
     getIDToken := Inr ''oidc'',
     http_post := (\<lambda>url body headers. Inr \<lparr>statusCode = 403, readBody = Inr ''forbidden''\<rparr>)\<rparr>"

definition answers_null :: world where
  "answers_null = healthy\<lparr>
     input := inputs_of [(''autodev_workflow_execution_token'', ''tok''), (''agent'', ''claude'')],
     getIDToken := Inr ''oidc'',
     http_post := (\<lambda>url body headers. Inr \<lparr>statusCode = 200, readBody = Inr ''null''\<rparr>),
     JSON_parse := (\<lambda>s. Inr JNull)\<rparr>"

definition refused :: world where
  "refused = healthy\<lparr>
     input := inputs_of [(''autodev_workflow_execution_token'', ''tok''), (''agent'', ''claude'')],
     getIDToken := Inr ''oidc'',
     http_post := (\<lambda>url body headers. Inr \<lparr>statusCode = 200, readBody = Inr ''{\"success\":false}''\<rparr>),
     JSON_parse := (\<lambda>s. Inr (JObj [(''success'', JBool False)]))\<rparr>"

definition granted :: world where
  "granted = healthy\<lparr>
     input := inputs_of [(''autodev_workflow_execution_token'', ''tok''), (''agent'', ''claude'')],
     getIDToken := Inr ''oidc'',
     http_post := (\<lambda>url body headers. Inr \<lparr>statusCode = 200, readBody = Inr ''token-body''\<rparr>),
     JSON_parse := (\<lambda>s. Inr (JObj [(''success'', JBool True), (''githubToken'', JStr ''ghs_1'')]))\<rparr>"

subsection \<open>The post-processing step\<close>

text \<open>
  The effects by which branch detection shows: its opening log line, the execution of the
  branch pipeline, and a request to the branch registration endpoint.
\<close>

fun is_branch_event :: "event \<Rightarrow> bool" where
  "is_branch_event (Exec c) = prefix ''git branch'' c"
| "is_branch_event (Post url body headers) = suffix ''/RegisterBranchesByToken'' url"
| "is_branch_event (Info m) = (m = [Lit ''Detecting newly created branches...''])"
| "is_branch_event ev = False"

text \<open>
  The effects by which the plan-file upload shows: its opening log line, the execution of
  the file listing or of a file read, and a request to the plan upload endpoint.
\<close>

fun is_plan_event :: "event \<Rightarrow> bool" where
  "is_plan_event (Exec c) = (c = ''ls PLAN-*.yaml 2>/dev/null || true'' \<or> prefix ''cat '' c)"
| "is_plan_event (Post url body headers) = suffix ''/UploadTaskGraphPlanByToken'' url"
| "is_plan_event (Info m) = (m = [Lit ''Detecting plan files...''])"
| "is_plan_event ev = False"

text \<open>A request to the branch registration endpoint.\<close>

fun is_registration :: "event \<Rightarrow> bool" where
  "is_registration (Post url body headers) = suffix ''/RegisterBranchesByToken'' url"
| "is_registration ev = False"

text \<open>The link call of a post-processing run, with the inputs as \<^verbatim>\<open>run\<close> reads them.\<close>

definition link_call :: "world \<Rightarrow> unit action" where
  "link_call w =
     linkGitHubAction w (devbird_api w) (js_trim (input w ''devbird_workflow_execution_token''))
       (js_trim (input w ''delino_access_token'')) (run_id w)"



text \<open>
  Post-processing runs of the healthy repository with both tokens supplied: in plan mode,
  with the mode unset, with the mode unset and a shell that cannot be started, the same
  with a backend that cannot be reached, and with the mode unset in a directory that is
  not a repository (\<^verbatim>\<open>git\<close> fails and lists nothing).
\<close>

definition plan_mode :: world where
  "plan_mode = healthy\<lparr>
     input := inputs_of [(''devbird_workflow_execution_token'', ''tok''),
                         (''delino_access_token'', ''acc''), (''devbird_mode'', ''plan'')]\<rparr>"

definition develop_mode :: world where
  "develop_mode = healthy\<lparr>
     input := inputs_of [(''devbird_workflow_execution_token'', ''tok''),
                         (''delino_access_token'', ''acc'')]\<rparr>"

definition no_shell :: world where
  "no_shell = develop_mode\<lparr>spawn_failure := Some (Error ''spawnSync /bin/sh ENOENT'')\<rparr>"

definition no_shell_unreachable :: world where
  "no_shell_unreachable = unreachable\<lparr>spawn_failure := Some (Error ''spawnSync /bin/sh ENOENT'')\<rparr>"

definition not_a_repository :: world where
  "not_a_repository = develop_mode\<lparr>git_branch := []\<rparr>"




subsection \<open>Branch detection\<close>

text \<open>A character that stands for itself in the pattern.\<close>

definition literal_char :: "char \<Rightarrow> bool" where
  "literal_char c = (c \<noteq> CHR ''.'' \<and> c \<noteq> CHR ''*'')"

text \<open>
  The branch set as the specification words it (\<^verbatim>\<open>detectBranches(baseBranch)\<close>, contract A):
  list the local branches, exclude the branch named by the base branch (\<^verbatim>\<open>"main"\<close> when
  unspecified), truncate to at most 20 entries, trim white space, drop empty entries.
\<close>

definition branch_set_spec :: "string \<Rightarrow> string list \<Rightarrow> string list" where
  "branch_set_spec baseBranch listing =
     filter (\<lambda>b. b \<noteq> [])
       (map js_trim (take 20 (filter (\<lambda>b. b \<noteq> defaultBaseBranch baseBranch) listing)))"

text \<open>
  Repositories whose \<^verbatim>\<open>git branch\<close> lists \<^verbatim>\<open>main\<close>, \<^verbatim>\<open>release-1.0\<close>, \<^verbatim>\<open>release-1x0\<close>,
  \<^verbatim>\<open>feature\<close>; \<^verbatim>\<open>main\<close>, \<^verbatim>\<open>v1.x\<close>, \<^verbatim>\<open>v1ax\<close>, \<^verbatim>\<open>feature-a\<close>; \<^verbatim>\<open>v\<close>, \<^verbatim>\<open>v1\<close>, \<^verbatim>\<open>v11\<close>,
  \<^verbatim>\<open>v12\<close>; and \<^verbatim>\<open>main\<close>, \<^verbatim>\<open>feature-a\<close>, \<^verbatim>\<open>feature-b\<close>.
\<close>

definition release_repo :: world where
  "release_repo = healthy\<lparr>git_branch := ''main\<newline>release-1.0\<newline>release-1x0\<newline>feature\<newline>''\<rparr>"

definition v1_repo :: world where
  "v1_repo = healthy\<lparr>git_branch := ''main\<newline>v1.x\<newline>v1ax\<newline>feature-a\<newline>''\<rparr>"

definition star_repo :: world where
  "star_repo = healthy\<lparr>git_branch := ''v\<newline>v1\<newline>v11\<newline>v12\<newline>''\<rparr>"

definition spec_example :: world where
  "spec_example = healthy\<lparr>git_branch := ''main\<newline>feature-a\<newline>feature-b\<newline>''\<rparr>"

section \<open>Basic facts about computations\<close>

lemma bind_Inr [simp]: "bind (evs, Inr x) f = (evs @ fst (f x), snd (f x))"
  by (simp add: bind_def split: prod.splits)

lemma bind_Inl [simp]: "bind (evs, Inl e) f = (evs, Inl e)"
  by (simp add: bind_def)

lemma try_catch_Inr [simp]: "try_catch (evs, Inr x) h = (evs, Inr x)"
  by (simp add: try_catch_def)

lemma try_catch_Inl [simp]: "try_catch (evs, Inl e) h = (evs @ fst (h e), snd (h e))"
  by (simp add: try_catch_def split: prod.splits)

lemma fst_bind: "fst (bind m f) = (case snd m of Inl e \<Rightarrow> fst m | Inr x \<Rightarrow> fst m @ fst (f x))"
  by (cases m) (auto split: sum.splits)

lemma snd_bind: "snd (bind m f) = (case snd m of Inl e \<Rightarrow> Inl e | Inr x \<Rightarrow> snd (f x))"
  by (cases m) (auto split: sum.splits)

lemma fst_try_catch:
  "fst (try_catch m h) = (case snd m of Inl e \<Rightarrow> fst m @ fst (h e) | Inr x \<Rightarrow> fst m)"
  by (cases m) (auto split: sum.splits)

lemma snd_try_catch:
  "snd (try_catch m h) = (case snd m of Inl e \<Rightarrow> snd (h e) | Inr x \<Rightarrow> Inr x)"
  by (cases m) (auto split: sum.splits)

lemma bind_task_Inr [simp]:
  "bind_task (evs, Inr x) f = ((evs @ fst (fst (f x)), snd (fst (f x))), snd (f x))"
  by (simp add: bind_task_def split: prod.splits)

lemma bind_task_Inl [simp]: "bind_task (evs, Inl e) f = ((evs, Inl e), [])"
  by (simp add: bind_task_def)

lemma try_catch_task_Inr [simp]: "try_catch_task ((evs, Inr x), late) h = (evs @ late, Inr x)"
  by (simp add: try_catch_task_def)

lemma try_catch_task_Inl [simp]:
  "try_catch_task ((evs, Inl e), late) h = (evs @ fst (h e) @ late, snd (h e))"
  by (simp add: try_catch_task_def split: prod.splits)

lemmas prims = ret_def throw_def emit_def lift_def info_def warning_def debug_def
  setFailed_def setOutput_def

subsection \<open>Calls side by side\<close>

lemma segments_nonempty [simp]: "segments evs \<noteq> []"
  by (induction evs) (auto split: list.splits)

lemma concat_segments [simp]: "concat (segments evs) = evs"
  by (induction evs) (auto split: list.splits)

lemma hd_tl_segments: "hd (segments evs) @ concat (tl (segments evs)) = evs"
  using concat_segments [of evs] segments_nonempty [of evs]
  by (cases "segments evs") simp_all

lemma segments_no_Post: "list_all (\<lambda>ev. \<not> is_Post ev) evs \<Longrightarrow> segments evs = [evs]"
  by (induction evs) simp_all

text \<open>A call that has ended and did not throw leaves the other call to run to its end.\<close>

lemma race_ended: "race first k xs ra [] (Inr ()) = ((concat xs, ra), [])"
  by (cases xs; cases ra) simp_all

text \<open>When the second call does not throw, the wait ends as the first call does.\<close>

lemma result_race: "rb = Inr () \<Longrightarrow> snd (fst (race first k xs ra ys rb)) = ra"
  by (induction first k xs ra ys rb rule: race.induct)
     (auto split: sum.splits prod.splits if_splits)

text \<open>The effects of each call keep their order.\<close>

lemma subseq_race_left:
  "subseq (concat xs) (fst (fst (race first k xs ra ys rb)) @ snd (race first k xs ra ys rb))"
proof (induction first k xs ra ys rb rule: race.induct)
  case (1 first k ra ys rb)
  show ?case by simp
next
  case (2 first k x xs ra rb)
  show ?case by (cases rb) simp_all
next
  case (3 first k x xs ra y ys rb)
  show ?case
  proof (cases "first k")
    case True
    with 3 have "subseq (concat xs)
        (fst (fst (race first (Suc k) xs ra (y # ys) rb)) @ snd (race first (Suc k) xs ra (y # ys) rb))"
      by simp
    then have "subseq (x @ concat xs)
        (x @ fst (fst (race first (Suc k) xs ra (y # ys) rb)) @ snd (race first (Suc k) xs ra (y # ys) rb))"
      by (rule list_emb_append_mono [OF subseq_order.refl])
    with True show ?thesis
      by (auto split: prod.splits)
  next
    case False
    with 3 have "subseq (concat (x # xs))
        (fst (fst (race first (Suc k) (x # xs) ra ys rb)) @ snd (race first (Suc k) (x # xs) ra ys rb))"
      by simp
    then have "subseq (concat (x # xs))
        (y @ fst (fst (race first (Suc k) (x # xs) ra ys rb)) @ snd (race first (Suc k) (x # xs) ra ys rb))"
      by (rule list_emb_append2)
    with False show ?thesis
      by (auto split: prod.splits)
  qed
qed

lemma subseq_race_right:
  "subseq (concat ys) (fst (fst (race first k xs ra ys rb)) @ snd (race first k xs ra ys rb))"
proof (induction first k xs ra ys rb rule: race.induct)
  case (1 first k ra ys rb)
  show ?case by (cases ra) simp_all
next
  case (2 first k x xs ra rb)
  show ?case by simp
next
  case (3 first k x xs ra y ys rb)
  show ?case
  proof (cases "first k")
    case True
    with 3 have "subseq (concat (y # ys))
        (fst (fst (race first (Suc k) xs ra (y # ys) rb)) @ snd (race first (Suc k) xs ra (y # ys) rb))"
      by simp
    then have "subseq (concat (y # ys))
        (x @ fst (fst (race first (Suc k) xs ra (y # ys) rb)) @ snd (race first (Suc k) xs ra (y # ys) rb))"
      by (rule list_emb_append2)
    with True show ?thesis
      by (auto split: prod.splits)
  next
    case False
    with 3 have "subseq (concat ys)
        (fst (fst (race first (Suc k) (x # xs) ra ys rb)) @ snd (race first (Suc k) (x # xs) ra ys rb))"
      by simp
    then have "subseq (y @ concat ys)
        (y @ fst (fst (race first (Suc k) (x # xs) ra ys rb)) @ snd (race first (Suc k) (x # xs) ra ys rb))"
      by (rule list_emb_append_mono [OF subseq_order.refl])
    with False show ?thesis
      by (auto split: prod.splits)
  qed
qed

text \<open>Every effect of the two calls happens, and no other.\<close>

lemma subseq_set_subset: "subseq xs ys \<Longrightarrow> set xs \<subseteq> set ys"
  by (induction rule: list_emb.induct) auto

lemma set_race_subset:
  "set (fst (fst (race first k xs ra ys rb)) @ snd (race first k xs ra ys rb))
     \<subseteq> set (concat xs) \<union> set (concat ys)"
proof (induction first k xs ra ys rb rule: race.induct)
  case (1 first k ra ys rb)
  show ?case by (cases ra) auto
next
  case (2 first k x xs ra rb)
  show ?case by (cases rb) auto
next
  case (3 first k x xs ra y ys rb)
  show ?case
  proof (cases "first k")
    case True
    with 3 have "set (fst (fst (race first (Suc k) xs ra (y # ys) rb)) @ snd (race first (Suc k) xs ra (y # ys) rb))
       \<subseteq> set (concat xs) \<union> set (concat (y # ys))"
      by simp
    with True show ?thesis
      by (auto split: prod.splits)
  next
    case False
    with 3 have "set (fst (fst (race first (Suc k) (x # xs) ra ys rb)) @ snd (race first (Suc k) (x # xs) ra ys rb))
       \<subseteq> set (concat (x # xs)) \<union> set (concat ys)"
      by simp
    with False show ?thesis
      by (auto split: prod.splits)
  qed
qed

lemma set_race:
  "set (fst (fst (race first k xs ra ys rb))) \<union> set (snd (race first k xs ra ys rb)) =
     set (concat xs) \<union> set (concat ys)"
proof
  show "set (fst (fst (race first k xs ra ys rb))) \<union> set (snd (race first k xs ra ys rb))
      \<subseteq> set (concat xs) \<union> set (concat ys)"
    using set_race_subset [of first k xs ra ys rb] by simp
  have "set (concat xs) \<subseteq> set (fst (fst (race first k xs ra ys rb)) @ snd (race first k xs ra ys rb))"
    by (rule subseq_set_subset) (rule subseq_race_left)
  moreover have "set (concat ys) \<subseteq> set (fst (fst (race first k xs ra ys rb)) @ snd (race first k xs ra ys rb))"
    by (rule subseq_set_subset) (rule subseq_race_right)
  ultimately show "set (concat xs) \<union> set (concat ys)
      \<subseteq> set (fst (fst (race first k xs ra ys rb))) \<union> set (snd (race first k xs ra ys rb))"
    by simp
qed

lemma set_promise_all:
  "set (fst (fst (promise_all w a b))) \<union> set (snd (promise_all w a b)) = set (fst a) \<union> set (fst b)"
proof -
  have "set (fst a) = set (hd (segments (fst a))) \<union> set (concat (tl (segments (fst a))))"
    and "set (fst b) = set (hd (segments (fst b))) \<union> set (concat (tl (segments (fst b))))"
    using hd_tl_segments [of "fst a"] hd_tl_segments [of "fst b"] by (metis set_append)+
  then show ?thesis
    using set_race [of "arrival w" 0 "tl (segments (fst a))" "snd a" "tl (segments (fst b))" "snd b"]
    by (auto simp: promise_all_def Let_def split: prod.splits)
qed

lemma result_promise_all: "snd b = Inr () \<Longrightarrow> snd (fst (promise_all w a b)) = snd a"
  using result_race [of "snd b" "arrival w" 0 "tl (segments (fst a))" "snd a" "tl (segments (fst b))"]
  by (auto simp: promise_all_def Let_def split: prod.splits)

text \<open>
  A second call that sends no request and does not throw has ended before the first call
  goes on.
\<close>

lemma promise_all_no_wait:
  assumes "list_all (\<lambda>ev. \<not> is_Post ev) evs"
  shows "promise_all w a (evs, Inr ()) =
     ((hd (segments (fst a)) @ evs @ concat (tl (segments (fst a))), snd a), [])"
  using assms by (simp add: promise_all_def Let_def segments_no_Post race_ended)

subsection \<open>Effects that a computation never has\<close>

lemma only_bind: "only P m \<Longrightarrow> (\<And>x. only P (f x)) \<Longrightarrow> only P (bind m f)"
  by (simp add: only_def fst_bind split: sum.splits)

lemma only_try_catch: "only P m \<Longrightarrow> (\<And>e. only P (h e)) \<Longrightarrow> only P (try_catch m h)"
  by (simp add: only_def fst_try_catch split: sum.splits)

lemma only_for_each: "(\<And>x. only P (body x)) \<Longrightarrow> only P (for_each body xs)"
  by (induction xs) (simp_all add: only_bind, simp add: only_def ret_def)

lemma only_prims:
  "only P (ret x)" "only P (throw e)" "only P (lift r)"
  "P ev \<Longrightarrow> only P (emit ev)"
  "P (Info m) \<Longrightarrow> only P (info m)"
  "P (Warning m) \<Longrightarrow> only P (warning m)"
  "P (Debug m) \<Longrightarrow> only P (debug m)"
  "P (SetFailed s) \<Longrightarrow> only P (setFailed s)"
  "P (SetOutput n v) \<Longrightarrow> only P (setOutput n v)"
  by (simp_all add: only_def prims)

lemma only_if: "(c \<Longrightarrow> only P a) \<Longrightarrow> (\<not> c \<Longrightarrow> only P b) \<Longrightarrow> only P (if c then a else b)"
  by simp

lemma only_post: "P (Post url body headers) \<Longrightarrow> only P (post w url body headers)"
  by (simp add: post_def only_bind only_prims)

lemma only_execSync: "P (Exec c) \<Longrightarrow> only P (execSync w c)"
  by (simp add: execSync_def only_bind only_prims)

lemma only_getInput: "only P (getInput w n r)"
  by (simp add: getInput_def only_prims Let_def)

lemmas only_intros = only_bind only_try_catch only_for_each only_prims only_if
  only_post only_execSync only_getInput

lemma only_task_bind:
  "only P m \<Longrightarrow> (\<And>x. only_task P (f x)) \<Longrightarrow> only_task P (bind_task m f)"
  by (cases m; cases "snd m") (auto simp: only_def only_task_def)

lemma only_task_alone: "only P m \<Longrightarrow> only_task P (alone m)"
  by (simp add: only_def only_task_def alone_def)

lemma only_task_promise_all: "only P a \<Longrightarrow> only P b \<Longrightarrow> only_task P (promise_all w a b)"
  using set_promise_all [of w a b]
  by (auto simp: only_def only_task_def list_all_iff)

lemma only_task_if:
  "(c \<Longrightarrow> only_task P a) \<Longrightarrow> (\<not> c \<Longrightarrow> only_task P b) \<Longrightarrow> only_task P (if c then a else b)"
  by simp

lemmas only_task_intros = only_task_bind only_task_alone only_task_promise_all only_task_if

subsection \<open>Computations that never throw\<close>

lemma rejects_pair [simp]: "rejects (evs, Inl e) = True" "rejects (evs, Inr x) = False"
  by (simp_all add: rejects_def)

lemma rejects_bind:
  "rejects (bind m f) = (rejects m \<or> (\<exists>x. snd m = Inr x \<and> rejects (f x)))"
  by (cases m; cases "snd m") (auto simp: rejects_def)

lemma rejects_bind_emit: "rejects (bind (emit ev) f) = rejects (f ())"
  by (simp add: rejects_def emit_def)

lemma not_rejects_try_catch: "(\<And>e. \<not> rejects (h e)) \<Longrightarrow> \<not> rejects (try_catch m h)"
  by (cases m) (simp add: rejects_def snd_try_catch split: sum.splits)

lemma not_rejects_for_each:
  "(\<And>x. \<not> rejects (body x)) \<Longrightarrow> \<not> rejects (for_each body xs)"
  by (induction xs) (simp_all add: rejects_bind, simp add: ret_def)

lemma not_rejects_Inr: "\<not> rejects m \<Longrightarrow> snd m = Inr ()"
  by (cases "snd m") (simp_all add: rejects_def)

lemma rejects_promise_all: "\<not> rejects b \<Longrightarrow> rejects (fst (promise_all w a b)) = rejects a"
  by (simp add: rejects_def result_promise_all [OF not_rejects_Inr])

subsection \<open>Trimming\<close>

lemma find_False: "find (\<lambda>p. False) ps = None"
  by (induction ps) simp_all

lemma strip_front_Nil [simp]: "strip_front ps [] = []"
  by (subst strip_front.simps) (simp add: find_False)

lemma ascii_Cons [simp]: "ascii (c # s) = ((of_char c :: nat) < 128 \<and> ascii s)"
  by (simp add: ascii_def)

lemma ascii_Nil [simp]: "ascii []"
  by (simp add: ascii_def)

lemma ascii_append [simp]: "ascii (s @ t) = (ascii s \<and> ascii t)"
  by (simp add: ascii_def)

lemma ascii_rev [simp]: "ascii (rev s) = ascii s"
  by (simp add: ascii_def)

lemma ascii_dropWhile: "ascii s \<Longrightarrow> ascii (dropWhile P s)"
  by (induction s) simp_all

lemma find_space:
  assumes "is_space c"
  shows "find (\<lambda>p. p \<noteq> [] \<and> prefix p (c # s)) white_space = Some [c]"
    and "find (\<lambda>p. p \<noteq> [] \<and> prefix p (c # s)) (map rev white_space) = Some [c]"
proof -
  from assms consider "c = CHR 0x09" | "c = CHR 0x0A" | "c = CHR 0x0B" | "c = CHR 0x0C"
    | "c = CHR 0x0D" | "c = CHR 0x20"
    by (auto simp: is_space_def)
  then show "find (\<lambda>p. p \<noteq> [] \<and> prefix p (c # s)) white_space = Some [c]"
    by cases (simp_all add: white_space_def)
  from assms consider "c = CHR 0x09" | "c = CHR 0x0A" | "c = CHR 0x0B" | "c = CHR 0x0C"
    | "c = CHR 0x0D" | "c = CHR 0x20"
    by (auto simp: is_space_def)
  then show "find (\<lambda>p. p \<noteq> [] \<and> prefix p (c # s)) (map rev white_space) = Some [c]"
    by cases (simp_all add: white_space_def)
qed

lemma find_other:
  assumes "(of_char c :: nat) < 128" and "\<not> is_space c"
  shows "find (\<lambda>p. p \<noteq> [] \<and> prefix p (c # s)) white_space = None"
    and "find (\<lambda>p. p \<noteq> [] \<and> prefix p (c # s)) (map rev white_space) = None"
proof -
  from assms(1) have "c \<noteq> CHR 0xC2" "c \<noteq> CHR 0xE1" "c \<noteq> CHR 0xE2" "c \<noteq> CHR 0xE3" "c \<noteq> CHR 0xEF"
    by auto
  with assms(2) show "find (\<lambda>p. p \<noteq> [] \<and> prefix p (c # s)) white_space = None"
    by (simp add: white_space_def is_space_def eq_commute [of _ c])
  from assms(1) have "c \<noteq> CHR 0xA0" "c \<noteq> CHR 0x80" "c \<noteq> CHR 0x81" "c \<noteq> CHR 0x82" "c \<noteq> CHR 0x83"
    "c \<noteq> CHR 0x84" "c \<noteq> CHR 0x85" "c \<noteq> CHR 0x86" "c \<noteq> CHR 0x87" "c \<noteq> CHR 0x88"
    "c \<noteq> CHR 0x89" "c \<noteq> CHR 0x8A" "c \<noteq> CHR 0xA8" "c \<noteq> CHR 0xA9" "c \<noteq> CHR 0xAF"
    "c \<noteq> CHR 0x9F" "c \<noteq> CHR 0xBF"
    by auto
  with assms(2) show "find (\<lambda>p. p \<noteq> [] \<and> prefix p (c # s)) (map rev white_space) = None"
    by (simp add: white_space_def is_space_def eq_commute [of _ c])
qed

lemma strip_front_space:
  assumes "is_space c"
  shows "strip_front white_space (c # s) = strip_front white_space s"
    and "strip_front (map rev white_space) (c # s) = strip_front (map rev white_space) s"
  by (simp_all add: strip_front.simps [of _ "c # s"] find_space [OF assms])

lemma strip_front_other:
  assumes "(of_char c :: nat) < 128" and "\<not> is_space c"
  shows "strip_front white_space (c # s) = c # s"
    and "strip_front (map rev white_space) (c # s) = c # s"
  by (simp_all add: strip_front.simps [of _ "c # s"] find_other [OF assms])

lemma strip_front_ascii:
  "ascii s \<Longrightarrow> strip_front white_space s = dropWhile is_space s"
  "ascii s \<Longrightarrow> strip_front (map rev white_space) s = dropWhile is_space s"
  by (induction s) (simp_all add: strip_front_space strip_front_other)

text \<open>On ASCII text, trimming removes the ASCII white space at both ends.\<close>

lemma js_trim_ascii: "ascii s \<Longrightarrow> js_trim s = trim_ascii s"
  by (simp add: js_trim_def trim_ascii_def strip_front_ascii ascii_dropWhile)

lemma js_trim_Nil [simp]: "js_trim [] = []"
  by (simp add: js_trim_def)

lemma js_trim_examples [simp]:
  "js_trim ''tok'' = ''tok''" "js_trim ''acc'' = ''acc''" "js_trim '' '' = []"
  "js_trim ''claude'' = ''claude''" "js_trim ''plan'' = ''plan''"
  by (simp_all add: js_trim_ascii trim_ascii_def is_space_def)

text \<open>White space beyond ASCII goes too; a character that only ends like one stays.\<close>

lemma js_trim_unicode:
  "js_trim [CHR 0xC2, CHR 0xA0, CHR ''a'', CHR '' '', CHR ''b'', CHR 0xE2, CHR 0x80, CHR 0xA8,
            CHR 0xEF, CHR 0xBB, CHR 0xBF] = ''a b''"
  "js_trim [CHR 0xC3, CHR 0xA9, CHR 0x0A] = [CHR 0xC3, CHR 0xA9]"
  "js_length [CHR 0xC3, CHR 0xA9] = 1"
  "js_length [CHR 0xF0, CHR 0x9F, CHR 0x98, CHR 0x80] = 2"
  by code_simp+

subsection \<open>Inputs\<close>

lemma inputs_of_simps [simp]:
  "inputs_of [] name = []"
  "inputs_of ((k, v) # kvs) name = (if k = name then v else inputs_of kvs name)"
  by (simp_all add: inputs_of_def)

lemma getInput_required_empty:
  "input w name = [] \<Longrightarrow>
   getInput w name True = ([], Inl (Error (''Input required and not supplied: '' @ name)))"
  by (simp add: getInput_def prims)

lemma getInput_supplied:
  "input w name \<noteq> [] \<Longrightarrow> getInput w name r = ([], Inr (js_trim (input w name)))"
  by (simp add: getInput_def prims)

lemma getInput_optional: "getInput w name False = ([], Inr (js_trim (input w name)))"
  by (simp add: getInput_def prims)

subsection \<open>Commands\<close>

lemma strip_prefix_append [simp]: "strip_prefix p (p @ s) = Some s"
  by (induction p) simp_all

lemma strip_suffix_append [simp]: "strip_suffix p (s @ p) = Some s"
  by (simp add: strip_suffix_def)

text \<open>
  The shell reads the command of \<^verbatim>\<open>detectBranches\<close> as the branch pipeline whose pattern
  is the base branch between the anchors.
\<close>

lemma branch_pipeline_branchCommand:
  "branch_pipeline (branchCommand base) = Some (''^'' @ base @ ''$'')"
proof -
  have "branchCommand base =
     (''git branch --format='' @ [CHR 0x27] @ ''%(refname:short)'' @ [CHR 0x27]
        @ '' | grep -v '' @ [CHR 0x27]) @ ((''^'' @ base @ ''$'') @ ([CHR 0x27] @ '' | head -20''))"
    by (simp add: branchCommand_def)
  then show ?thesis
    unfolding branch_pipeline_def by (simp only: strip_prefix_append option.case strip_suffix_append)
qed

lemma anchored_base: "anchored (''^'' @ base @ ''$'') = Some base"
proof -
  have "strip_prefix ''^'' (''^'' @ (base @ ''$'')) = Some (base @ ''$'')"
    by (rule strip_prefix_append)
  then show ?thesis
    unfolding anchored_def by (simp only: option.case strip_suffix_append)
qed

lemma shell_branchCommand:
  "shell w (branchCommand base) =
     (if bre_fragment base \<and> ascii_text (git_branch w) then
        (case spawn_failure w of
           Some e \<Rightarrow> Inl e
         | None \<Rightarrow> Inr (pipeline_output base (git_branch w)))
      else sh w (branchCommand base))"
  by (simp add: shell_def branch_pipeline_branchCommand anchored_base del: append.simps)

text \<open>The other two commands of the program are not the branch pipeline.\<close>

lemma shell_other: "c \<noteq> CHR ''g'' \<Longrightarrow> shell w (c # s) = sh w (c # s)"
  by (simp add: shell_def branch_pipeline_def)

lemma shell_cat: "shell w (''cat '' @ f) = sh w (''cat '' @ f)"
  by (simp add: shell_other)


section \<open>The terminal state of a run\<close>

lemma failed_run:
  "only (\<lambda>ev. \<not> is_SetFailed ev) m \<Longrightarrow> failed (trace (try_catch m run_catch)) = rejects m"
proof (cases m)
  case (Pair evs r)
  assume "only (\<lambda>ev. \<not> is_SetFailed ev) m"
  with Pair have no: "\<not> list_ex is_SetFailed evs"
    by (simp add: only_def list_ex_iff list_all_iff)
  show ?thesis
  proof (cases r)
    case (Inl e)
    with Pair no show ?thesis
      by (cases e) (simp_all add: failed_def trace_def run_catch_def prims)
  next
    case (Inr x)
    with Pair no show ?thesis
      by (simp add: failed_def trace_def)
  qed
qed

lemma failed_run_task:
  assumes "only_task (\<lambda>ev. \<not> is_SetFailed ev) t"
  shows "failed (trace (try_catch_task t run_catch)) = rejects (fst t)"
proof -
  obtain evs r late where t: "t = ((evs, r), late)"
    by (metis prod.collapse)
  with assms have no: "\<not> list_ex is_SetFailed evs" "\<not> list_ex is_SetFailed late"
    by (simp_all add: only_task_def list_ex_iff list_all_iff)
  show ?thesis
  proof (cases r)
    case (Inl e)
    with t no show ?thesis
      by (cases e) (simp_all add: failed_def trace_def run_catch_def prims)
  next
    case (Inr x)
    with t no show ?thesis
      by (simp add: failed_def trace_def)
  qed
qed

lemma linkGitHubAction_no_SetFailed:
  "only (\<lambda>ev. \<not> is_SetFailed ev) (linkGitHubAction w url tok acc rid)"
  unfolding linkGitHubAction_def
  by (intro only_intros) simp_all

lemma detectBranches_no_SetFailed:
  "only (\<lambda>ev. \<not> is_SetFailed ev) (detectBranches w url tok acc b)"
  unfolding detectBranches_def list_branches_def
  by (intro only_intros) simp_all

lemma uploadPlanFiles_no_SetFailed:
  "only (\<lambda>ev. \<not> is_SetFailed ev) (uploadPlanFiles w url tok acc)"
  unfolding uploadPlanFiles_def uploadPlanFile_def Let_def
  by (intro only_intros) simp_all

lemma postprocess_body_no_SetFailed:
  "only_task (\<lambda>ev. \<not> is_SetFailed ev) (postprocess_body w)"
  unfolding postprocess_body_def Let_def
  by (intro only_task_intros only_intros linkGitHubAction_no_SetFailed detectBranches_no_SetFailed
      uploadPlanFiles_no_SetFailed) simp_all

text \<open>The post-processing run fails exactly when the \<^verbatim>\<open>try\<close> block of \<^verbatim>\<open>run\<close> throws.\<close>

lemma postprocess_failed_iff:
  "failed (trace (postprocess_run w)) = rejects (fst (postprocess_body w))"
  unfolding postprocess_run_def by (rule failed_run_task) (rule postprocess_body_no_SetFailed)

lemma detectBranches_total: "\<not> rejects (detectBranches w url tok acc b)"
  unfolding detectBranches_def info_def rejects_bind_emit
  by (rule not_rejects_try_catch) (simp add: warning_def emit_def)


lemma uploadPlanFiles_total: "\<not> rejects (uploadPlanFiles w url tok acc)"
  unfolding uploadPlanFiles_def info_def rejects_bind_emit
  by (rule not_rejects_try_catch) (simp add: warning_def emit_def)

section \<open>The workflow token of the post-processing step (C1)\<close>

text \<open>
  \<^verbatim>\<open>run\<close> reads the token with \<^verbatim>\<open>{ required: true }\<close>, so an absent or empty token makes
  \<^verbatim>\<open>core.getInput\<close> throw before line 13 is reached.
\<close>

lemma postprocess_absent_token:
  "input w ''devbird_workflow_execution_token'' = [] \<Longrightarrow>
   postprocess_run w =
     ([SetFailed ''Input required and not supplied: devbird_workflow_execution_token''], Inr ())"
  by (simp add: postprocess_run_def postprocess_body_def getInput_required_empty run_catch_def
      prims)

text \<open>
  The guard of line 13 is reached, and returns early with a warning, only for a token that
  is supplied and blank: it is not empty, and trimming leaves nothing.
\<close>

lemma postprocess_blank_token:
  "input w ''devbird_workflow_execution_token'' \<noteq> [] \<Longrightarrow>
   js_trim (input w ''devbird_workflow_execution_token'') = [] \<Longrightarrow>
   postprocess_run w = ([Warning [Lit ''No task token provided'']], Inr ())"
  by (simp add: postprocess_run_def postprocess_body_def getInput_supplied run_catch_def prims
      alone_def)

text \<open>
  C1. The claim: when the input \<^verbatim>\<open>devbird_workflow_execution_token\<close> is absent or empty,
  the post-processing run returns early, logging only, and ends in success. The code: with
  the access token supplied and the workflow token absent, the only effect of the run is
  \<^verbatim>\<open>core.setFailed\<close> with the message of the required-input check, and the run ends in
  failure.
\<close>

theorem postprocess_absent_token_fails:
  "trace (postprocess_run no_token) =
     [SetFailed ''Input required and not supplied: devbird_workflow_execution_token'']
   \<and> failed (trace (postprocess_run no_token))"
  by (simp add: postprocess_absent_token no_token_def inputs_of_def trace_def failed_def)

section \<open>The task linker of the post-processing step (C2)\<close>

text \<open>
  A response whose status is not 200, and a parsed response whose \<^verbatim>\<open>success\<close> is not
  truthy, give a warning, and \<^verbatim>\<open>linkGitHubAction\<close> returns.
\<close>

lemma linkGitHubAction_not_200:
  assumes "http_post w (url @ ''/delino.devbird.v1.DevBird/LinkGitHubActionByToken'')
             (JObj [(''workflow_execution_token'', JStr tok), (''github_run_id'', JStr rid)])
             (auth_headers acc) = Inr r"
    and "statusCode r \<noteq> 200" and "readBody r = Inr body"
  shows "linkGitHubAction w url tok acc rid =
     ([Info [Lit ''Linking GitHub Action run '', Txt rid, Lit '' to task using token''],
       Post (url @ ''/delino.devbird.v1.DevBird/LinkGitHubActionByToken'')
         (JObj [(''workflow_execution_token'', JStr tok), (''github_run_id'', JStr rid)])
         (auth_headers acc),
       Warning [Lit ''Failed to link GitHub Action: '', Txt body]], Inr ())"
  using assms by (simp add: linkGitHubAction_def post_def prims)

lemma linkGitHubAction_not_success:
  assumes "http_post w (url @ ''/delino.devbird.v1.DevBird/LinkGitHubActionByToken'')
             (JObj [(''workflow_execution_token'', JStr tok), (''github_run_id'', JStr rid)])
             (auth_headers acc) = Inr r"
    and "statusCode r = 200" and "readBody r = Inr body"
    and "JSON_parse w body = Inr (JObj kvs)"
    and "\<not> truthy (field kvs ''success'')"
  shows "linkGitHubAction w url tok acc rid =
     ([Info [Lit ''Linking GitHub Action run '', Txt rid, Lit '' to task using token''],
       Post (url @ ''/delino.devbird.v1.DevBird/LinkGitHubActionByToken'')
         (JObj [(''workflow_execution_token'', JStr tok), (''github_run_id'', JStr rid)])
         (auth_headers acc),
       Warning [Lit ''Failed to link GitHub Action: '',
                Js (field kvs ''message'')]], Inr ())"
  using assms by (simp add: linkGitHubAction_def post_def prims)

text \<open>
  An error thrown by \<^verbatim>\<open>http.post\<close>, by \<^verbatim>\<open>readBody\<close> or by \<^verbatim>\<open>JSON.parse\<close> leaves
  \<^verbatim>\<open>linkGitHubAction\<close>: the function has no \<^verbatim>\<open>try\<close>, unlike \<^verbatim>\<open>detectBranches\<close>,
  \<^verbatim>\<open>uploadPlanFiles\<close> and the linking step of the preparation.
\<close>

lemma linkGitHubAction_post_throws:
  assumes "http_post w (url @ ''/delino.devbird.v1.DevBird/LinkGitHubActionByToken'')
             (JObj [(''workflow_execution_token'', JStr tok), (''github_run_id'', JStr rid)])
             (auth_headers acc) = Inl e"
  shows "result (linkGitHubAction w url tok acc rid) = Inl e"
  using assms by (simp add: linkGitHubAction_def post_def prims result_def)

lemma linkGitHubAction_parse_throws:
  assumes "http_post w (url @ ''/delino.devbird.v1.DevBird/LinkGitHubActionByToken'')
             (JObj [(''workflow_execution_token'', JStr tok), (''github_run_id'', JStr rid)])
             (auth_headers acc) = Inr r"
    and "statusCode r = 200" and "readBody r = Inr body" and "JSON_parse w body = Inl e"
  shows "result (linkGitHubAction w url tok acc rid) = Inl e"
  using assms by (simp add: linkGitHubAction_def post_def prims result_def)

text \<open>
  C2. The claim: in the task linker of the post-processing step every thrown exception
  (network error, malformed body) and every non-200 or unsuccessful response becomes a
  warning, and the run still ends in success. The code: with both tokens supplied and a
  backend that refuses the connection, the error of the link call reaches the \<^verbatim>\<open>catch\<close> of
  \<^verbatim>\<open>run\<close>; no warning is logged for it and the run ends in failure. The same error in
  \<^verbatim>\<open>detectBranches\<close>, which is still waiting when the run fails, is caught and logged as a
  warning.
\<close>

theorem postprocess_link_network_error_fails:
  "trace (postprocess_run unreachable) =
    [Info [Lit ''Running in develop mode - only detecting branches''],
     Info [Lit ''Linking GitHub Action run '', Txt ''42'', Lit '' to task using token''],
     Post ''https://devbird.api.delino.io/delino.devbird.v1.DevBird/LinkGitHubActionByToken''
       (JObj [(''workflow_execution_token'', JStr ''tok''), (''github_run_id'', JStr ''42'')])
       [(''Content-Type'', ''application/json''), (''Authorization'', ''Bearer acc'')],
     Info [Lit ''Detecting newly created branches...''],
     Exec (branchCommand ''main''),
     Info [Lit ''Found '', Count 0, Lit '' branches: '', Txt []],
     Post ''https://devbird.api.delino.io/delino.devbird.v1.DevBird/RegisterBranchesByToken''
       (JObj [(''workflow_execution_token'', JStr ''tok''), (''branch_names'', JArr [])])
       [(''Content-Type'', ''application/json''), (''Authorization'', ''Bearer acc'')],
     SetFailed ''connect ECONNREFUSED'',
     Warning [Lit ''Error detecting branches: '', Err (Error ''connect ECONNREFUSED'')]]
   \<and> failed (trace (postprocess_run unreachable))"
proof -
  have w: "input unreachable = inputs_of [(''devbird_workflow_execution_token'', ''tok''),
                         (''delino_access_token'', ''acc'')]"
    "http_post unreachable = (\<lambda>url body headers. Inl (Error ''connect ECONNREFUSED''))"
    "env unreachable = (\<lambda>name. [])" "run_id unreachable = ''42''"
    "git_branch unreachable = []" "spawn_failure unreachable = None"
    "arrival unreachable = (\<lambda>k. True)"
    by (simp_all add: unreachable_def healthy_def)
  have l: "linkGitHubAction unreachable ''https://devbird.api.delino.io'' ''tok'' ''acc'' ''42'' =
    ([Info [Lit ''Linking GitHub Action run '', Txt ''42'', Lit '' to task using token''],
      Post ''https://devbird.api.delino.io/delino.devbird.v1.DevBird/LinkGitHubActionByToken''
       (JObj [(''workflow_execution_token'', JStr ''tok''), (''github_run_id'', JStr ''42'')])
       [(''Content-Type'', ''application/json''), (''Authorization'', ''Bearer acc'')]],
     Inl (Error ''connect ECONNREFUSED''))"
    by (simp add: linkGitHubAction_def post_def prims w auth_headers_def)
  have x: "shell unreachable (branchCommand ''main'') = Inr []"
    by (simp add: shell_branchCommand bre_fragment_def plain_char_def ascii_text_def w
        pipeline_output_def text_lines_def)
  have d: "detectBranches unreachable ''https://devbird.api.delino.io'' ''tok'' ''acc'' [] =
    ([Info [Lit ''Detecting newly created branches...''],
      Exec (branchCommand ''main''),
      Info [Lit ''Found '', Count 0, Lit '' branches: '', Txt []],
      Post ''https://devbird.api.delino.io/delino.devbird.v1.DevBird/RegisterBranchesByToken''
       (JObj [(''workflow_execution_token'', JStr ''tok''), (''branch_names'', JArr [])])
       [(''Content-Type'', ''application/json''), (''Authorization'', ''Bearer acc'')],
      Warning [Lit ''Error detecting branches: '', Err (Error ''connect ECONNREFUSED'')]],
     Inr ())"
    by (simp add: detectBranches_def list_branches_def execSync_def defaultBaseBranch_def x
        post_def prims w auth_headers_def branches_of_def)
  have "postprocess_run unreachable =
    ([Info [Lit ''Running in develop mode - only detecting branches''],
     Info [Lit ''Linking GitHub Action run '', Txt ''42'', Lit '' to task using token''],
     Post ''https://devbird.api.delino.io/delino.devbird.v1.DevBird/LinkGitHubActionByToken''
       (JObj [(''workflow_execution_token'', JStr ''tok''), (''github_run_id'', JStr ''42'')])
       [(''Content-Type'', ''application/json''), (''Authorization'', ''Bearer acc'')],
     Info [Lit ''Detecting newly created branches...''],
     Exec (branchCommand ''main''),
     Info [Lit ''Found '', Count 0, Lit '' branches: '', Txt []],
     Post ''https://devbird.api.delino.io/delino.devbird.v1.DevBird/RegisterBranchesByToken''
       (JObj [(''workflow_execution_token'', JStr ''tok''), (''branch_names'', JArr [])])
       [(''Content-Type'', ''application/json''), (''Authorization'', ''Bearer acc'')],
     SetFailed ''connect ECONNREFUSED'',
     Warning [Lit ''Error detecting branches: '', Err (Error ''connect ECONNREFUSED'')]], Inr ())"
    by (simp add: postprocess_run_def postprocess_body_def getInput_def prims Let_def
        devbird_api_def w l d promise_all_def run_catch_def)
  then show ?thesis
    by (simp add: trace_def failed_def)
qed

section \<open>The preparation run\<close>

lemma bind_total: "snd m = Inr x \<Longrightarrow> bind m f = (fst m @ fst (f x), snd (f x))"
  by (cases m) simp

lemma obtainGithubToken_total: "\<not> rejects (obtainGithubToken w)"
  unfolding obtainGithubToken_def
  by (rule not_rejects_try_catch) (simp add: prims)

lemma prepare_link_total: "\<not> rejects (prepare_link w tok acc)"
  unfolding prepare_link_def Let_def info_def rejects_bind_emit
  by (rule not_rejects_try_catch) (simp add: prims)

lemma obtainGithubToken_result: "snd (obtainGithubToken w) = Inr (githubToken_after w)"
  using obtainGithubToken_total [of w]
  by (cases "snd (obtainGithubToken w)") (simp_all add: githubToken_after_def result_def rejects_def)

lemma prepare_link_result: "snd (prepare_link w tok acc) = Inr ()"
  using prepare_link_total [of w tok acc]
  by (cases "snd (prepare_link w tok acc)") (simp_all add: rejects_def)

text \<open>With the two required inputs supplied, nothing in the \<^verbatim>\<open>try\<close> block of \<^verbatim>\<open>run\<close> throws.\<close>

lemma prepare_body_supplied:
  assumes "input w ''autodev_workflow_execution_token'' \<noteq> []" and "input w ''agent'' \<noteq> []"
  shows "prepare_body w =
     (trace (obtainGithubToken w) @ prepare_report w
        @ (if js_trim (input w ''delino_access_token'') \<noteq> []
              \<and> js_trim (input w ''autodev_workflow_execution_token'') \<noteq> []
           then trace (prepare_link w (js_trim (input w ''autodev_workflow_execution_token''))
                         (js_trim (input w ''delino_access_token'')))
           else [])
        @ [Info [Lit ''Preparation complete'']], Inr ())"
  using assms
  by (simp add: prepare_body_def getInput_supplied getInput_optional
      bind_total [OF obtainGithubToken_result] bind_total [OF prepare_link_result]
      prims prepare_report_def trace_def)

lemma prepare_run_supplied:
  assumes "input w ''autodev_workflow_execution_token'' \<noteq> []" and "input w ''agent'' \<noteq> []"
  shows "prepare_run w = prepare_body w" and "\<not> rejects (prepare_body w)"
  using assms by (simp_all add: prepare_run_def prepare_body_supplied)

lemma prepare_absent_token:
  "input w ''autodev_workflow_execution_token'' = [] \<Longrightarrow>
   prepare_run w =
     ([SetFailed ''Input required and not supplied: autodev_workflow_execution_token''], Inr ())"
  by (simp add: prepare_run_def prepare_body_def getInput_required_empty run_catch_def prims)

lemma obtainGithubToken_no_SetFailed: "only (\<lambda>ev. \<not> is_SetFailed ev) (obtainGithubToken w)"
  unfolding obtainGithubToken_def exchangeOIDCToken_def Let_def
  by (intro only_intros) simp_all

lemma prepare_link_no_SetFailed: "only (\<lambda>ev. \<not> is_SetFailed ev) (prepare_link w tok acc)"
  unfolding prepare_link_def Let_def
  by (intro only_intros) simp_all

lemma prepare_body_no_SetFailed: "only (\<lambda>ev. \<not> is_SetFailed ev) (prepare_body w)"
  unfolding prepare_body_def Let_def
  by (intro only_intros obtainGithubToken_no_SetFailed prepare_link_no_SetFailed) simp_all

text \<open>The preparation run fails exactly when the \<^verbatim>\<open>try\<close> block of \<^verbatim>\<open>run\<close> throws.\<close>

lemma prepare_failed_iff: "failed (trace (prepare_run w)) = rejects (prepare_body w)"
  unfolding prepare_run_def by (rule failed_run) (rule prepare_body_no_SetFailed)

section \<open>The workflow token of the preparation step (C3)\<close>

text \<open>
  C3, as claimed: in the preparation step the input \<^verbatim>\<open>autodev_workflow_execution_token\<close>
  is optional, and without it only the linking step is skipped. The code reads the input
  with \<^verbatim>\<open>{ required: true }\<close>: with the agent and the access token supplied and the
  workflow token absent, the run does nothing but fail.
\<close>

theorem prepare_absent_token_fails:
  "trace (prepare_run no_autodev_token) =
     [SetFailed ''Input required and not supplied: autodev_workflow_execution_token'']
   \<and> failed (trace (prepare_run no_autodev_token))"
  by (simp add: prepare_absent_token no_autodev_token_def healthy_def inputs_of_def trace_def
      failed_def)

text \<open>
  C3, as the code has it: the input \<^verbatim>\<open>autodev_workflow_execution_token\<close> is required.
  When it is absent or empty the run fails with the message of the required-input check and
  has no other effect. When it and the agent are supplied the run ends in success: it
  performs the token exchange, reports and sets its outputs, runs the linking step exactly
  when both the access token and the workflow token are not blank, and logs its completion.
  So the linking step alone is skipped when the access token is absent, or when the
  workflow token is supplied but blank.
\<close>

theorem prepare_workflow_token_required:
  "(input w ''autodev_workflow_execution_token'' = [] \<longrightarrow>
      trace (prepare_run w) =
        [SetFailed ''Input required and not supplied: autodev_workflow_execution_token'']
      \<and> failed (trace (prepare_run w)))
   \<and> (input w ''autodev_workflow_execution_token'' \<noteq> [] \<and> input w ''agent'' \<noteq> [] \<longrightarrow>
      \<not> failed (trace (prepare_run w))
      \<and> trace (prepare_run w) =
          trace (obtainGithubToken w) @ prepare_report w
          @ (if js_trim (input w ''delino_access_token'') \<noteq> []
                \<and> js_trim (input w ''autodev_workflow_execution_token'') \<noteq> []
             then trace (prepare_link w (js_trim (input w ''autodev_workflow_execution_token''))
                           (js_trim (input w ''delino_access_token'')))
             else [])
          @ [Info [Lit ''Preparation complete'']])"
proof (intro conjI impI)
  assume "input w ''autodev_workflow_execution_token'' = []"
  then show "trace (prepare_run w) =
        [SetFailed ''Input required and not supplied: autodev_workflow_execution_token'']"
    and "failed (trace (prepare_run w))"
    by (simp_all add: prepare_absent_token trace_def failed_def)
next
  assume a: "input w ''autodev_workflow_execution_token'' \<noteq> [] \<and> input w ''agent'' \<noteq> []"
  then have "\<not> rejects (prepare_body w)"
    by (simp add: prepare_run_supplied)
  then show "\<not> failed (trace (prepare_run w))"
    by (simp add: prepare_failed_iff)
  from a show "trace (prepare_run w) =
          trace (obtainGithubToken w) @ prepare_report w
          @ (if js_trim (input w ''delino_access_token'') \<noteq> []
                \<and> js_trim (input w ''autodev_workflow_execution_token'') \<noteq> []
             then trace (prepare_link w (js_trim (input w ''autodev_workflow_execution_token''))
                           (js_trim (input w ''delino_access_token'')))
             else [])
          @ [Info [Lit ''Preparation complete'']]"
    by (simp add: prepare_run_supplied prepare_body_supplied) (simp add: trace_def)
qed

theorem prepare_workflow_token_required_witness:
  "(input no_autodev_token ''autodev_workflow_execution_token'' = []
    \<and> failed (trace (prepare_run no_autodev_token)))
   \<and> (input blank_autodev_token ''autodev_workflow_execution_token'' \<noteq> []
    \<and> input blank_autodev_token ''agent'' \<noteq> []
    \<and> \<not> failed (trace (prepare_run blank_autodev_token))
    \<and> trace (prepare_run blank_autodev_token) =
       [Info [Lit ''Requesting GitHub OIDC token...''],
        Info [Lit ''OIDC token not available, will use provided tokens''],
        Debug [Lit ''OIDC error: '',
               Err (Error ''Unable to get ACTIONS_ID_TOKEN_REQUEST_URL env variable'')],
        Info [Lit ''Preparing AutoDev environment for '', Txt ''claude'', Lit '' agent''],
        Info [Lit ''Repository: '', Txt ''octo'', Lit ''/'', Txt ''demo''],
        Info [Lit ''Base branch: '', Txt ''default''],
        SetOutput ''workflow_execution_token'' (JStr []),
        SetOutput ''agent'' (JStr ''claude''),
        SetOutput ''agent_model'' (JStr []),
        SetOutput ''githubToken_obtained'' (JStr ''false''),
        Info [Lit ''Preparation complete'']])"
proof -
  have g: "obtainGithubToken blank_autodev_token =
     ([Info [Lit ''Requesting GitHub OIDC token...''],
       Info [Lit ''OIDC token not available, will use provided tokens''],
       Debug [Lit ''OIDC error: '',
              Err (Error ''Unable to get ACTIONS_ID_TOKEN_REQUEST_URL env variable'')]],
      Inr (JStr []))"
    by (simp add: obtainGithubToken_def exchangeOIDCToken_def blank_autodev_token_def
        healthy_def prims)
  have i: "input no_autodev_token =
        inputs_of [(''agent'', ''claude''), (''delino_access_token'', ''acc'')]"
    "input blank_autodev_token =
        inputs_of [(''autodev_workflow_execution_token'', '' ''), (''agent'', ''claude''),
                   (''delino_access_token'', ''acc'')]"
    "repo_owner blank_autodev_token = ''octo''" "repo_name blank_autodev_token = ''demo''"
    by (simp_all add: no_autodev_token_def blank_autodev_token_def healthy_def)
  show ?thesis
    using prepare_workflow_token_required [of no_autodev_token]
      prepare_workflow_token_required [of blank_autodev_token]
    by (simp add: i inputs_of_def g prepare_report_def githubToken_after_def trace_def result_def
        failed_def)
qed

section \<open>The token exchange of the preparation step\<close>

text \<open>The ways the exchange ends once the response has arrived.\<close>

lemma exchange_unreadable:
  assumes "getIDToken w = Inr oidc" and "oidc \<noteq> []"
    and "exchange_response w oidc = Inr r" and "readBody r = Inl e"
  shows "obtainGithubToken w =
     (exchange_prefix w oidc
        @ [Info [Lit ''OIDC token not available, will use provided tokens''],
           Debug [Lit ''OIDC error: '', Err e]],
      Inr (JStr []))"
  using assms
  by (simp add: obtainGithubToken_def exchangeOIDCToken_def exchange_response_def
      exchange_request_def exchange_prefix_def post_def prims)

lemma exchange_not_200:
  assumes "getIDToken w = Inr oidc" and "oidc \<noteq> []"
    and "exchange_response w oidc = Inr r" and "readBody r = Inr body"
    and "statusCode r \<noteq> 200"
  shows "obtainGithubToken w =
     (exchange_prefix w oidc
        @ [Warning [Lit ''Failed to exchange OIDC token: HTTP '', Count (statusCode r)]],
      Inr (JStr []))"
  using assms
  by (simp add: obtainGithubToken_def exchangeOIDCToken_def exchange_response_def
      exchange_request_def exchange_prefix_def post_def prims)

lemma exchange_malformed:
  assumes "getIDToken w = Inr oidc" and "oidc \<noteq> []"
    and "exchange_response w oidc = Inr r" and "readBody r = Inr body"
    and "statusCode r = 200" and "JSON_parse w body = Inl e"
  shows "obtainGithubToken w =
     (exchange_prefix w oidc
        @ [Info [Lit ''OIDC token not available, will use provided tokens''],
           Debug [Lit ''OIDC error: '', Err e]],
      Inr (JStr []))"
  using assms
  by (simp add: obtainGithubToken_def exchangeOIDCToken_def exchange_response_def
      exchange_request_def exchange_prefix_def post_def prims)

lemma exchange_null:
  assumes "getIDToken w = Inr oidc" and "oidc \<noteq> []"
    and "exchange_response w oidc = Inr r" and "readBody r = Inr body"
    and "statusCode r = 200" and "JSON_parse w body = Inr v"
    and "js_member v ''success'' = Inl e"
  shows "obtainGithubToken w =
     (exchange_prefix w oidc
        @ [Info [Lit ''OIDC token not available, will use provided tokens''],
           Debug [Lit ''OIDC error: '', Err e]],
      Inr (JStr []))"
  using assms
  by (simp add: obtainGithubToken_def exchangeOIDCToken_def exchange_response_def
      exchange_request_def exchange_prefix_def post_def prims)

text \<open>A value whose \<^verbatim>\<open>success\<close> can be read is not \<^verbatim>\<open>null\<close>: every property can be read.\<close>

lemma js_member_total: "js_member v k = Inr x \<Longrightarrow> \<exists>y. js_member v k' = Inr y"
  by (cases v) simp_all

lemma exchange_not_success:
  assumes "getIDToken w = Inr oidc" and "oidc \<noteq> []"
    and "exchange_response w oidc = Inr r" and "readBody r = Inr body"
    and "statusCode r = 200" and "JSON_parse w body = Inr v"
    and "js_member v ''success'' = Inr s"
    and "\<not> (reads_truthy v ''success'' \<and> reads_truthy v ''githubToken'')"
  shows "obtainGithubToken w =
     (exchange_prefix w oidc
        @ [Warning [Lit ''Failed to exchange OIDC token: '', Json v]],
      Inr (JStr []))"
proof -
  obtain g where g: "js_member v ''githubToken'' = Inr g"
    using js_member_total [OF assms(7)] by blast
  with assms(7,8) have "\<not> (truthy s \<and> truthy g)"
    by (simp add: reads_truthy_def)
  with assms g show ?thesis
    by (auto simp add: obtainGithubToken_def exchangeOIDCToken_def exchange_response_def
        exchange_request_def exchange_prefix_def post_def prims)
qed

lemma exchange_success:
  assumes "getIDToken w = Inr oidc" and "oidc \<noteq> []"
    and "exchange_response w oidc = Inr r" and "readBody r = Inr body"
    and "statusCode r = 200" and "JSON_parse w body = Inr (JObj kvs)"
    and "truthy (field kvs ''success'')" and "truthy (field kvs ''githubToken'')"
  shows "obtainGithubToken w =
     (exchange_prefix w oidc
        @ [Info [Lit ''Successfully obtained GitHub App installation token via OIDC''],
           SetSecret (field kvs ''githubToken''),
           ExportVariable ''githubToken'' (field kvs ''githubToken''),
           SetOutput ''github_token'' (field kvs ''githubToken'')],
      Inr (field kvs ''githubToken''))"
  using assms
  by (simp add: obtainGithubToken_def exchangeOIDCToken_def exchange_response_def
      exchange_request_def exchange_prefix_def post_def prims)

lemma prepare_link_no_publication: "only (\<lambda>ev. \<not> is_publication ev) (prepare_link w tok acc)"
  unfolding prepare_link_def Let_def
  by (intro only_intros) simp_all

lemma filter_only: "only (\<lambda>ev. \<not> P ev) m \<Longrightarrow> filter P (fst m) = []"
  by (simp add: only_def list_all_iff filter_empty_conv)


section \<open>A failed token exchange (C8)\<close>

text \<open>
  C8, as claimed: in the token exchange of the preparation step every response with a
  status other than 200, with a malformed body, or with \<^verbatim>\<open>success == false\<close> is logged as
  a warning. The code: a response with status 200 whose body \<^verbatim>\<open>JSON.parse\<close> rejects is
  handled by the \<^verbatim>\<open>catch (oidcError)\<close> of line 74, which logs at the info and debug
  levels; the whole run logs no warning.
\<close>

theorem exchange_malformed_body_logs_no_warning:
  "\<not> list_ex is_Warning (trace (prepare_run garbled))
   \<and> trace (obtainGithubToken garbled) =
     [Info [Lit ''Requesting GitHub OIDC token...''],
      Info [Lit ''OIDC token obtained, exchanging for GitHub App installation token...''],
      Post ''https://autodev.api.delino.io/delino.autodev.v1.AutoDev/ExchangeOIDCTokenForGitHubToken''
        (JObj [(''oidc_token'', JStr ''oidc''), (''repository_owner'', JStr ''octo''),
               (''repository_name'', JStr ''demo'')])
        [(''Content-Type'', ''application/json'')],
      Info [Lit ''OIDC token not available, will use provided tokens''],
      Debug [Lit ''OIDC error: '', Err (Error ''Unexpected token'')]]"
proof -
  have g: "obtainGithubToken garbled =
     ([Info [Lit ''Requesting GitHub OIDC token...''],
       Info [Lit ''OIDC token obtained, exchanging for GitHub App installation token...''],
       Post ''https://autodev.api.delino.io/delino.autodev.v1.AutoDev/ExchangeOIDCTokenForGitHubToken''
         (JObj [(''oidc_token'', JStr ''oidc''), (''repository_owner'', JStr ''octo''),
                (''repository_name'', JStr ''demo'')])
         [(''Content-Type'', ''application/json'')],
       Info [Lit ''OIDC token not available, will use provided tokens''],
       Debug [Lit ''OIDC error: '', Err (Error ''Unexpected token'')]], Inr (JStr []))"
    by (simp add: obtainGithubToken_def exchangeOIDCToken_def garbled_def healthy_def prims
        post_def autodev_api_def json_headers_def)
  have i: "input garbled =
      inputs_of [(''autodev_workflow_execution_token'', ''tok''), (''agent'', ''claude'')]"
    by (simp add: garbled_def healthy_def)
  have "prepare_run garbled = prepare_body garbled"
    by (rule prepare_run_supplied) (simp_all add: i)
  moreover have "trace (prepare_body garbled) =
      trace (obtainGithubToken garbled) @ prepare_report garbled
        @ [Info [Lit ''Preparation complete'']]"
    by (subst prepare_body_supplied) (simp_all add: i trace_def)
  ultimately show ?thesis
    by (simp add: g trace_def prepare_report_def)
qed

text \<open>
  C8, as the code has it. Let the required inputs be supplied, the OIDC token obtained and
  the response to the exchange call received. If the response grants no token (its body
  cannot be read, or its status is not 200, or the body does not parse, or \<^verbatim>\<open>success\<close> and
  \<^verbatim>\<open>githubToken\<close> of the parsed body are not both truthy, \<^verbatim>\<open>success == false\<close> in
  particular), then no exception leaves the component and no token is obtained. The log
  entry is a warning when the body is read and the status is not 200, and when the status
  is 200 and the body parses to a value other than \<^verbatim>\<open>null\<close>; it is an info entry followed
  by a debug entry when the body cannot be read, and when the status is 200 and the body
  does not parse or parses to \<^verbatim>\<open>null\<close>. The run publishes no token, sets the output
  \<^verbatim>\<open>githubToken_obtained\<close> to \<^verbatim>\<open>"false"\<close>, and does not fail.
\<close>

theorem exchange_failure_not_fatal:
  assumes "input w ''autodev_workflow_execution_token'' \<noteq> []" and "input w ''agent'' \<noteq> []"
    and "getIDToken w = Inr oidc" and "oidc \<noteq> []"
    and "exchange_response w oidc = Inr r"
    and "\<not> grants_token w r"
  shows "\<not> rejects (obtainGithubToken w)
    \<and> result (obtainGithubToken w) = Inr (JStr [])
    \<and> trace (obtainGithubToken w) = exchange_prefix w oidc @
        (case readBody r of
           Inl e \<Rightarrow> [Info [Lit ''OIDC token not available, will use provided tokens''],
                     Debug [Lit ''OIDC error: '', Err e]]
         | Inr body \<Rightarrow>
             if statusCode r \<noteq> 200
             then [Warning [Lit ''Failed to exchange OIDC token: HTTP '', Count (statusCode r)]]
             else (case JSON_parse w body of
                     Inl e \<Rightarrow> [Info [Lit ''OIDC token not available, will use provided tokens''],
                               Debug [Lit ''OIDC error: '', Err e]]
                   | Inr v \<Rightarrow>
                       (case js_member v ''success'' of
                          Inl e \<Rightarrow> [Info [Lit ''OIDC token not available, will use provided tokens''],
                                    Debug [Lit ''OIDC error: '', Err e]]
                        | Inr s \<Rightarrow> [Warning [Lit ''Failed to exchange OIDC token: '', Json v]])))
    \<and> filter is_publication (trace (prepare_run w)) =
        [SetOutput ''workflow_execution_token''
           (JStr (js_trim (input w ''autodev_workflow_execution_token''))),
         SetOutput ''agent'' (JStr (js_trim (input w ''agent''))),
         SetOutput ''agent_model'' (JStr (js_trim (input w ''agent_model''))),
         SetOutput ''githubToken_obtained'' (JStr ''false'')]
    \<and> \<not> failed (trace (prepare_run w))"
proof -
  let ?tail = "(case readBody r of
           Inl e \<Rightarrow> [Info [Lit ''OIDC token not available, will use provided tokens''],
                     Debug [Lit ''OIDC error: '', Err e]]
         | Inr body \<Rightarrow>
             if statusCode r \<noteq> 200
             then [Warning [Lit ''Failed to exchange OIDC token: HTTP '', Count (statusCode r)]]
             else (case JSON_parse w body of
                     Inl e \<Rightarrow> [Info [Lit ''OIDC token not available, will use provided tokens''],
                               Debug [Lit ''OIDC error: '', Err e]]
                   | Inr v \<Rightarrow>
                       (case js_member v ''success'' of
                          Inl e \<Rightarrow> [Info [Lit ''OIDC token not available, will use provided tokens''],
                                    Debug [Lit ''OIDC error: '', Err e]]
                        | Inr s \<Rightarrow> [Warning [Lit ''Failed to exchange OIDC token: '', Json v]])))"
  have ex: "obtainGithubToken w = (exchange_prefix w oidc @ ?tail, Inr (JStr []))"
  proof (cases "readBody r")
    case (Inl e)
    then show ?thesis
      using exchange_unreadable [OF assms(3,4,5)] by simp
  next
    case body: (Inr body)
    show ?thesis
    proof (cases "statusCode r \<noteq> 200")
      case True
      then show ?thesis
        using exchange_not_200 [OF assms(3,4,5) body] body by simp
    next
      case ok: False
      show ?thesis
      proof (cases "JSON_parse w body")
        case (Inl e)
        then show ?thesis
          using exchange_malformed [OF assms(3,4,5) body] body ok by simp
      next
        case v: (Inr v)
        show ?thesis
        proof (cases "js_member v ''success''")
          case (Inl e)
          then show ?thesis
            using exchange_null [OF assms(3,4,5) body _ v] body ok v by simp
        next
          case s: (Inr s)
          from assms(6) body ok v
          have "\<not> (reads_truthy v ''success'' \<and> reads_truthy v ''githubToken'')"
            by (simp add: grants_token_def)
          then show ?thesis
            using exchange_not_success [OF assms(3,4,5) body _ v s] body ok v s by simp
        qed
      qed
    qed
  qed
  have g: "githubToken_after w = JStr []"
    by (simp add: githubToken_after_def result_def ex)
  have run: "prepare_run w = prepare_body w" "\<not> rejects (prepare_body w)"
    using assms by (simp_all add: prepare_run_supplied)
  have no: "filter is_publication ?tail = []"
    by (simp split: sum.splits)
  have "filter is_publication (trace (prepare_body w)) =
        [SetOutput ''workflow_execution_token''
           (JStr (js_trim (input w ''autodev_workflow_execution_token''))),
         SetOutput ''agent'' (JStr (js_trim (input w ''agent''))),
         SetOutput ''agent_model'' (JStr (js_trim (input w ''agent_model''))),
         SetOutput ''githubToken_obtained'' (JStr ''false'')]"
    using assms(1,2)
    by (simp add: prepare_body_supplied ex g prepare_report_def exchange_prefix_def
        exchange_request_def filter_only [OF prepare_link_no_publication] trace_def no)
  moreover have "\<not> failed (trace (prepare_run w))"
    using run(2) by (simp add: prepare_failed_iff)
  ultimately show ?thesis
    by (simp add: run(1) result_def ex trace_def)
qed

theorem exchange_failure_not_fatal_witness:
  "(\<not> grants_token denied \<lparr>statusCode = 403, readBody = Inr ''forbidden''\<rparr>
    \<and> result (obtainGithubToken denied) = Inr (JStr [])
    \<and> trace (obtainGithubToken denied) =
       [Info [Lit ''Requesting GitHub OIDC token...''],
        Info [Lit ''OIDC token obtained, exchanging for GitHub App installation token...''],
        Post ''https://autodev.api.delino.io/delino.autodev.v1.AutoDev/ExchangeOIDCTokenForGitHubToken''
          (JObj [(''oidc_token'', JStr ''oidc''), (''repository_owner'', JStr ''octo''),
                 (''repository_name'', JStr ''demo'')])
          [(''Content-Type'', ''application/json'')],
        Warning [Lit ''Failed to exchange OIDC token: HTTP '', Count 403]]
    \<and> filter is_publication (trace (prepare_run denied)) =
       [SetOutput ''workflow_execution_token'' (JStr ''tok''),
        SetOutput ''agent'' (JStr ''claude''),
        SetOutput ''agent_model'' (JStr []),
        SetOutput ''githubToken_obtained'' (JStr ''false'')]
    \<and> \<not> failed (trace (prepare_run denied)))
   \<and> (\<not> grants_token refused \<lparr>statusCode = 200, readBody = Inr ''{\"success\":false}''\<rparr>
    \<and> result (obtainGithubToken refused) = Inr (JStr [])
    \<and> trace (obtainGithubToken refused) =
       [Info [Lit ''Requesting GitHub OIDC token...''],
        Info [Lit ''OIDC token obtained, exchanging for GitHub App installation token...''],
        Post ''https://autodev.api.delino.io/delino.autodev.v1.AutoDev/ExchangeOIDCTokenForGitHubToken''
          (JObj [(''oidc_token'', JStr ''oidc''), (''repository_owner'', JStr ''octo''),
                 (''repository_name'', JStr ''demo'')])
          [(''Content-Type'', ''application/json'')],
        Warning [Lit ''Failed to exchange OIDC token: '', Json (JObj [(''success'', JBool False)])]]
    \<and> \<not> failed (trace (prepare_run refused)))
   \<and> (\<not> grants_token answers_null \<lparr>statusCode = 200, readBody = Inr ''null''\<rparr>
    \<and> result (obtainGithubToken answers_null) = Inr (JStr [])
    \<and> trace (obtainGithubToken answers_null) =
       [Info [Lit ''Requesting GitHub OIDC token...''],
        Info [Lit ''OIDC token obtained, exchanging for GitHub App installation token...''],
        Post ''https://autodev.api.delino.io/delino.autodev.v1.AutoDev/ExchangeOIDCTokenForGitHubToken''
          (JObj [(''oidc_token'', JStr ''oidc''), (''repository_owner'', JStr ''octo''),
                 (''repository_name'', JStr ''demo'')])
          [(''Content-Type'', ''application/json'')],
        Info [Lit ''OIDC token not available, will use provided tokens''],
        Debug [Lit ''OIDC error: '',
               Err (Error ''Cannot read properties of null (reading success)'')]]
    \<and> \<not> failed (trace (prepare_run answers_null)))"
proof -
  have d: "input denied =
      inputs_of [(''autodev_workflow_execution_token'', ''tok''), (''agent'', ''claude'')]"
    "getIDToken denied = Inr ''oidc''" "repo_owner denied = ''octo''" "repo_name denied = ''demo''"
    "env denied = (\<lambda>name. [])"
    "exchange_response denied ''oidc'' = Inr \<lparr>statusCode = 403, readBody = Inr ''forbidden''\<rparr>"
    by (simp_all add: denied_def healthy_def exchange_response_def)
  have r: "input refused =
      inputs_of [(''autodev_workflow_execution_token'', ''tok''), (''agent'', ''claude'')]"
    "getIDToken refused = Inr ''oidc''" "repo_owner refused = ''octo''" "repo_name refused = ''demo''"
    "env refused = (\<lambda>name. [])"
    "exchange_response refused ''oidc'' =
       Inr \<lparr>statusCode = 200, readBody = Inr ''{\"success\":false}''\<rparr>"
    "JSON_parse refused = (\<lambda>s. Inr (JObj [(''success'', JBool False)]))"
    by (simp_all add: refused_def healthy_def exchange_response_def)
  have n: "input answers_null =
      inputs_of [(''autodev_workflow_execution_token'', ''tok''), (''agent'', ''claude'')]"
    "getIDToken answers_null = Inr ''oidc''" "repo_owner answers_null = ''octo''"
    "repo_name answers_null = ''demo''" "env answers_null = (\<lambda>name. [])"
    "exchange_response answers_null ''oidc'' = Inr \<lparr>statusCode = 200, readBody = Inr ''null''\<rparr>"
    "JSON_parse answers_null = (\<lambda>s. Inr JNull)"
    by (simp_all add: answers_null_def healthy_def exchange_response_def)
  have g: "\<not> grants_token denied \<lparr>statusCode = 403, readBody = Inr ''forbidden''\<rparr>"
    "\<not> grants_token refused \<lparr>statusCode = 200, readBody = Inr ''{\"success\":false}''\<rparr>"
    "\<not> grants_token answers_null \<lparr>statusCode = 200, readBody = Inr ''null''\<rparr>"
    by (simp_all add: grants_token_def reads_truthy_def r n field_def)
  show ?thesis
    using exchange_failure_not_fatal [of denied "''oidc''"
        "\<lparr>statusCode = 403, readBody = Inr ''forbidden''\<rparr>"]
      exchange_failure_not_fatal [of refused "''oidc''"
        "\<lparr>statusCode = 200, readBody = Inr ''{\"success\":false}''\<rparr>"]
      exchange_failure_not_fatal [of answers_null "''oidc''"
        "\<lparr>statusCode = 200, readBody = Inr ''null''\<rparr>"]
    by (simp add: d r n g exchange_prefix_def exchange_request_def autodev_api_def
        json_headers_def field_def)
qed

section \<open>A successful token exchange (C9)\<close>

text \<open>
  C9. Let the required inputs be supplied and the OIDC token obtained. When the exchange
  endpoint answers with status 200 and a JSON body whose \<^verbatim>\<open>success\<close> is \<^verbatim>\<open>true\<close> and whose
  \<^verbatim>\<open>githubToken\<close> is a non-empty string \<open>t\<close>, the exchange succeeds with \<open>t\<close>, and the
  values the run publishes are exactly: \<open>t\<close> as a secret mask, \<open>t\<close> as the exported
  variable \<^verbatim>\<open>githubToken\<close>, \<open>t\<close> as the output \<^verbatim>\<open>github_token\<close>, the three outputs that
  echo inputs, and the output \<^verbatim>\<open>githubToken_obtained\<close> with the value \<^verbatim>\<open>"true"\<close>. The run
  does not fail.
\<close>

theorem exchange_success_publishes:
  assumes "input w ''autodev_workflow_execution_token'' \<noteq> []" and "input w ''agent'' \<noteq> []"
    and "getIDToken w = Inr oidc" and "oidc \<noteq> []"
    and "exchange_response w oidc = Inr r" and "statusCode r = 200"
    and "readBody r = Inr body" and "JSON_parse w body = Inr (JObj kvs)"
    and "map_of kvs ''success'' = Some (JBool True)"
    and "map_of kvs ''githubToken'' = Some (JStr t)" and "t \<noteq> []"
  shows "result (obtainGithubToken w) = Inr (JStr t)
    \<and> filter is_publication (trace (prepare_run w)) =
        [SetSecret (JStr t),
         ExportVariable ''githubToken'' (JStr t),
         SetOutput ''github_token'' (JStr t),
         SetOutput ''workflow_execution_token''
           (JStr (js_trim (input w ''autodev_workflow_execution_token''))),
         SetOutput ''agent'' (JStr (js_trim (input w ''agent''))),
         SetOutput ''agent_model'' (JStr (js_trim (input w ''agent_model''))),
         SetOutput ''githubToken_obtained'' (JStr ''true'')]
    \<and> \<not> failed (trace (prepare_run w))"
proof -
  have f: "field kvs ''success'' = JBool True" "field kvs ''githubToken'' = JStr t"
    using assms by (simp_all add: field_def)
  have ex: "obtainGithubToken w =
     (exchange_prefix w oidc
        @ [Info [Lit ''Successfully obtained GitHub App installation token via OIDC''],
           SetSecret (JStr t), ExportVariable ''githubToken'' (JStr t),
           SetOutput ''github_token'' (JStr t)],
      Inr (JStr t))"
    using exchange_success [of w oidc r body kvs] assms f by simp
  have g: "githubToken_after w = JStr t"
    by (simp add: githubToken_after_def result_def ex)
  have run: "prepare_run w = prepare_body w" "\<not> rejects (prepare_body w)"
    using assms by (simp_all add: prepare_run_supplied)
  have "filter is_publication (trace (prepare_body w)) =
        [SetSecret (JStr t),
         ExportVariable ''githubToken'' (JStr t),
         SetOutput ''github_token'' (JStr t),
         SetOutput ''workflow_execution_token''
           (JStr (js_trim (input w ''autodev_workflow_execution_token''))),
         SetOutput ''agent'' (JStr (js_trim (input w ''agent''))),
         SetOutput ''agent_model'' (JStr (js_trim (input w ''agent_model''))),
         SetOutput ''githubToken_obtained'' (JStr ''true'')]"
    using assms(1,2) \<open>t \<noteq> []\<close>
    by (simp add: prepare_body_supplied ex g prepare_report_def exchange_prefix_def
        exchange_request_def filter_only [OF prepare_link_no_publication] trace_def)
  moreover have "\<not> failed (trace (prepare_run w))"
    using run(2) by (simp add: prepare_failed_iff)
  ultimately show ?thesis
    by (simp add: run(1) result_def ex)
qed

theorem exchange_success_publishes_witness:
  "result (obtainGithubToken granted) = Inr (JStr ''ghs_1'')
   \<and> filter is_publication (trace (prepare_run granted)) =
       [SetSecret (JStr ''ghs_1''),
        ExportVariable ''githubToken'' (JStr ''ghs_1''),
        SetOutput ''github_token'' (JStr ''ghs_1''),
        SetOutput ''workflow_execution_token'' (JStr ''tok''),
        SetOutput ''agent'' (JStr ''claude''),
        SetOutput ''agent_model'' (JStr []),
        SetOutput ''githubToken_obtained'' (JStr ''true'')]
   \<and> \<not> failed (trace (prepare_run granted))"
proof -
  have w: "input granted =
      inputs_of [(''autodev_workflow_execution_token'', ''tok''), (''agent'', ''claude'')]"
    "getIDToken granted = Inr ''oidc''"
    "exchange_response granted ''oidc'' = Inr \<lparr>statusCode = 200, readBody = Inr ''token-body''\<rparr>"
    "JSON_parse granted ''token-body'' =
       Inr (JObj [(''success'', JBool True), (''githubToken'', JStr ''ghs_1'')])"
    by (simp_all add: granted_def healthy_def exchange_response_def)
  show ?thesis
    using exchange_success_publishes [of granted "''oidc''"
        "\<lparr>statusCode = 200, readBody = Inr ''token-body''\<rparr>" "''token-body''"
        "[(''success'', JBool True), (''githubToken'', JStr ''ghs_1'')]" "''ghs_1''"]
    by (simp add: w)
qed

section \<open>The two modes of the post-processing step\<close>

lemma suffix_append_long: "length xs \<le> length zs \<Longrightarrow> suffix xs (ys @ zs) = suffix xs zs"
  by (auto simp: suffix_append)

text \<open>The \<^verbatim>\<open>try\<close> block of \<^verbatim>\<open>run\<close> once both tokens are read.\<close>

lemma postprocess_body_supplied:
  assumes "js_trim (input w ''devbird_workflow_execution_token'') \<noteq> []"
    and "input w ''delino_access_token'' \<noteq> []"
  shows "postprocess_body w =
    (if devbirdMode w = ''plan'' then
       bind_task (info [Lit ''Running in plan mode - only uploading plan files'']) (\<lambda>u.
       promise_all w (link_call w)
         (uploadPlanFiles w (devbird_api w) (js_trim (input w ''devbird_workflow_execution_token''))
            (js_trim (input w ''delino_access_token''))))
     else
       bind_task (info [Lit ''Running in develop mode - only detecting branches'']) (\<lambda>u.
       promise_all w (link_call w)
         (detectBranches w (devbird_api w) (js_trim (input w ''devbird_workflow_execution_token''))
            (js_trim (input w ''delino_access_token'')) (js_trim (input w ''base_branch'')))))"
proof -
  from assms(1) have "input w ''devbird_workflow_execution_token'' \<noteq> []"
    by auto
  with assms show ?thesis
    by (simp add: postprocess_body_def getInput_supplied getInput_optional devbirdMode_def Let_def
        link_call_def)
qed

lemma postprocess_no_access_token:
  assumes "js_trim (input w ''devbird_workflow_execution_token'') \<noteq> []"
    and "input w ''delino_access_token'' = []"
  shows "postprocess_run w = ([SetFailed ''Input required and not supplied: delino_access_token''], Inr ())"
proof -
  from assms(1) have "input w ''devbird_workflow_execution_token'' \<noteq> []"
    by auto
  with assms show ?thesis
    by (simp add: postprocess_run_def postprocess_body_def getInput_supplied getInput_required_empty
        run_catch_def prims)
qed

lemma link_no_branch_event: "only (\<lambda>ev. \<not> is_branch_event ev) (linkGitHubAction w url tok acc rid)"
  unfolding linkGitHubAction_def
  by (intro only_intros) (simp_all add: suffix_append_long suffix_to_prefix)

lemma link_no_plan_event: "only (\<lambda>ev. \<not> is_plan_event ev) (linkGitHubAction w url tok acc rid)"
  unfolding linkGitHubAction_def
  by (intro only_intros) (simp_all add: suffix_append_long suffix_to_prefix)

lemma upload_no_branch_event: "only (\<lambda>ev. \<not> is_branch_event ev) (uploadPlanFiles w url tok acc)"
  unfolding uploadPlanFiles_def uploadPlanFile_def Let_def
  by (intro only_intros) (simp_all add: suffix_append_long suffix_to_prefix)

lemma detect_no_plan_event: "only (\<lambda>ev. \<not> is_plan_event ev) (detectBranches w url tok acc b)"
  unfolding detectBranches_def list_branches_def
  by (intro only_intros) (simp_all add: suffix_append_long suffix_to_prefix branchCommand_def)

text \<open>The effects of a run, apart from \<^verbatim>\<open>setFailed\<close>, are those of its \<^verbatim>\<open>try\<close> block.\<close>

lemma list_ex_run_task:
  assumes "\<And>s. \<not> P (SetFailed s)"
  shows "list_ex P (trace (try_catch_task t run_catch)) =
     (list_ex P (fst (fst t)) \<or> list_ex P (snd t))"
proof -
  obtain evs r late where t: "t = ((evs, r), late)"
    by (metis prod.collapse)
  show ?thesis
    using assms
    by (cases r) (auto simp: t trace_def run_catch_def prims split: exn.splits)
qed

lemma list_ex_promise_all:
  "(list_ex P (fst (fst (promise_all w a b))) \<or> list_ex P (snd (promise_all w a b))) =
     (list_ex P (fst a) \<or> list_ex P (fst b))"
proof -
  have "(list_ex P (fst (fst (promise_all w a b))) \<or> list_ex P (snd (promise_all w a b))) =
      (\<exists>x \<in> set (fst (fst (promise_all w a b))) \<union> set (snd (promise_all w a b)). P x)"
    by (auto simp: list_ex_iff)
  also have "\<dots> = (\<exists>x \<in> set (fst a) \<union> set (fst b). P x)"
    by (simp only: set_promise_all)
  also have "\<dots> = (list_ex P (fst a) \<or> list_ex P (fst b))"
    by (auto simp: list_ex_iff)
  finally show ?thesis .
qed

lemma list_ex_only_task:
  "only_task (\<lambda>ev. \<not> P ev) t \<Longrightarrow> \<not> (list_ex P (fst (fst t)) \<or> list_ex P (snd t))"
  by (simp add: only_task_def list_all_iff list_ex_iff)

section \<open>Mode selection (C5)\<close>

text \<open>
  C5. The mode is the value of the input \<^verbatim>\<open>devbird_mode\<close> as \<^verbatim>\<open>core.getInput\<close> returns it,
  \<^verbatim>\<open>"develop"\<close> when the input is unset. When it is \<^verbatim>\<open>"plan"\<close>, no effect of the run belongs to
  branch detection; for every other value, no effect of the run belongs to the plan-file
  upload; so no run has effects of both. With both tokens supplied the scan of the selected
  mode does run.
\<close>

theorem mode_selection_exclusive:
  "(devbirdMode w = ''plan'' \<longrightarrow> \<not> list_ex is_branch_event (trace (postprocess_run w)))
   \<and> (devbirdMode w \<noteq> ''plan'' \<longrightarrow> \<not> list_ex is_plan_event (trace (postprocess_run w)))
   \<and> \<not> (list_ex is_branch_event (trace (postprocess_run w))
        \<and> list_ex is_plan_event (trace (postprocess_run w)))
   \<and> (input w ''devbird_mode'' = [] \<longrightarrow> devbirdMode w = ''develop'')
   \<and> (js_trim (input w ''devbird_workflow_execution_token'') \<noteq> []
        \<and> input w ''delino_access_token'' \<noteq> [] \<longrightarrow>
      (if devbirdMode w = ''plan'' then list_ex is_plan_event (trace (postprocess_run w))
       else list_ex is_branch_event (trace (postprocess_run w))))"
proof -
  have b: "list_ex is_branch_event (trace (postprocess_run w)) =
      (list_ex is_branch_event (fst (fst (postprocess_body w)))
       \<or> list_ex is_branch_event (snd (postprocess_body w)))"
    and p: "list_ex is_plan_event (trace (postprocess_run w)) =
      (list_ex is_plan_event (fst (fst (postprocess_body w)))
       \<or> list_ex is_plan_event (snd (postprocess_body w)))"
    unfolding postprocess_run_def by (rule list_ex_run_task, simp)+
  have plan: "\<not> (list_ex is_branch_event (fst (fst (postprocess_body w)))
       \<or> list_ex is_branch_event (snd (postprocess_body w)))" if "devbirdMode w = ''plan''"
  proof -
    have "only_task (\<lambda>ev. \<not> is_branch_event ev) (postprocess_body w)"
    proof (cases "js_trim (input w ''devbird_workflow_execution_token'') \<noteq> [] \<and> input w ''delino_access_token'' \<noteq> []")
      case True
      then show ?thesis
        using that
        by (simp add: postprocess_body_supplied link_call_def)
           (intro only_task_intros only_intros link_no_branch_event upload_no_branch_event, simp)
    next
      case False
      then show ?thesis
        unfolding postprocess_body_def getInput_def Let_def
        by (auto simp add: prims only_task_def alone_def)
    qed
    then show ?thesis by (rule list_ex_only_task)
  qed
  have dev: "\<not> (list_ex is_plan_event (fst (fst (postprocess_body w)))
       \<or> list_ex is_plan_event (snd (postprocess_body w)))" if "devbirdMode w \<noteq> ''plan''"
  proof -
    have "only_task (\<lambda>ev. \<not> is_plan_event ev) (postprocess_body w)"
    proof (cases "js_trim (input w ''devbird_workflow_execution_token'') \<noteq> [] \<and> input w ''delino_access_token'' \<noteq> []")
      case True
      then show ?thesis
        using that
        by (simp add: postprocess_body_supplied link_call_def)
           (intro only_task_intros only_intros link_no_plan_event detect_no_plan_event, simp)
    next
      case False
      then show ?thesis
        unfolding postprocess_body_def getInput_def Let_def
        by (auto simp add: prims only_task_def alone_def)
    qed
    then show ?thesis by (rule list_ex_only_task)
  qed
  have some: "if devbirdMode w = ''plan''
       then list_ex is_plan_event (fst (fst (postprocess_body w)))
            \<or> list_ex is_plan_event (snd (postprocess_body w))
       else list_ex is_branch_event (fst (fst (postprocess_body w)))
            \<or> list_ex is_branch_event (snd (postprocess_body w))"
    if "js_trim (input w ''devbird_workflow_execution_token'') \<noteq> []"
      and "input w ''delino_access_token'' \<noteq> []"
  proof (cases "devbirdMode w = ''plan''")
    case True
    have "list_ex is_plan_event (fst (uploadPlanFiles w (devbird_api w)
        (js_trim (input w ''devbird_workflow_execution_token''))
        (js_trim (input w ''delino_access_token''))))"
      by (simp add: uploadPlanFiles_def prims fst_bind)
    then show ?thesis
      using True list_ex_promise_all [of is_plan_event w "link_call w"]
      by (auto simp add: postprocess_body_supplied [OF that] prims)
  next
    case False
    have "list_ex is_branch_event (fst (detectBranches w (devbird_api w)
        (js_trim (input w ''devbird_workflow_execution_token''))
        (js_trim (input w ''delino_access_token'')) (js_trim (input w ''base_branch''))))"
      by (simp add: detectBranches_def prims fst_bind)
    then show ?thesis
      using False list_ex_promise_all [of is_branch_event w "link_call w"]
      by (auto simp add: postprocess_body_supplied [OF that] prims)
  qed
  show ?thesis
    using plan dev some by (auto simp add: b p devbirdMode_def)
qed

theorem mode_selection_exclusive_witness:
  "(devbirdMode plan_mode = ''plan''
    \<and> \<not> list_ex is_branch_event (trace (postprocess_run plan_mode))
    \<and> list_ex is_plan_event (trace (postprocess_run plan_mode)))
   \<and> (input develop_mode ''devbird_mode'' = []
    \<and> devbirdMode develop_mode = ''develop''
    \<and> \<not> list_ex is_plan_event (trace (postprocess_run develop_mode))
    \<and> list_ex is_branch_event (trace (postprocess_run develop_mode)))"
proof -
  have i: "input plan_mode = inputs_of [(''devbird_workflow_execution_token'', ''tok''),
                         (''delino_access_token'', ''acc''), (''devbird_mode'', ''plan'')]"
    "input develop_mode = inputs_of [(''devbird_workflow_execution_token'', ''tok''),
                         (''delino_access_token'', ''acc'')]"
    by (simp_all add: plan_mode_def develop_mode_def healthy_def)
  have m: "devbirdMode plan_mode = ''plan''" "devbirdMode develop_mode = ''develop''"
    by (simp_all add: devbirdMode_def i)
  show ?thesis
    using mode_selection_exclusive [of plan_mode] mode_selection_exclusive [of develop_mode]
    by (simp add: m) (simp add: i)
qed

section \<open>A failing branch-listing command (C6)\<close>

lemma execSync_eq: "execSync w c = ([Exec c], shell w c)"
  by (simp add: execSync_def prims)

lemma detectBranches_command_fails:
  assumes "result (execSync w (branchCommand (defaultBaseBranch b))) = Inl e"
  shows "detectBranches w url tok acc b =
     ([Info [Lit ''Detecting newly created branches...''],
       Exec (branchCommand (defaultBaseBranch b)),
       Warning [Lit ''Error detecting branches: '', Err e]], Inr ())"
  using assms by (simp add: detectBranches_def list_branches_def execSync_eq result_def prims)

text \<open>
  A listing that gives the branches \<open>bs\<close>: they are logged and sent to the registration
  endpoint, and \<^verbatim>\<open>detectBranches\<close> waits for the answer.
\<close>

lemma detectBranches_registers:
  assumes "list_branches w b = ([Exec (branchCommand (defaultBaseBranch b))], Inr bs)"
  shows "\<exists>rest. fst (detectBranches w url tok acc b) =
     [Info [Lit ''Detecting newly created branches...''],
      Exec (branchCommand (defaultBaseBranch b)),
      Info [Lit ''Found '', Count (length bs), Lit '' branches: '', Txt (js_join '', '' bs)],
      Post (url @ ''/delino.devbird.v1.DevBird/RegisterBranchesByToken'')
        (JObj [(''workflow_execution_token'', JStr tok), (''branch_names'', JArr (map JStr bs))])
        (auth_headers acc)] @ rest"
  using assms
  by (simp add: detectBranches_def post_def prims fst_bind fst_try_catch split: sum.splits)

lemma list_branches_empty:
  assumes "bre_fragment (defaultBaseBranch b)" and "spawn_failure w = None" and "git_branch w = []"
  shows "list_branches w b = ([Exec (branchCommand (defaultBaseBranch b))], Inr [])"
  using assms
  by (simp add: list_branches_def execSync_eq shell_branchCommand ascii_text_def
      pipeline_output_def text_lines_def branches_of_def prims)

text \<open>The link call logs, sends its request and waits.\<close>

lemma link_shape:
  "\<exists>rest. fst (linkGitHubAction w url tok acc rid) =
     [Info [Lit ''Linking GitHub Action run '', Txt rid, Lit '' to task using token''],
      Post (url @ ''/delino.devbird.v1.DevBird/LinkGitHubActionByToken'')
        (JObj [(''workflow_execution_token'', JStr tok), (''github_run_id'', JStr rid)])
        (auth_headers acc)] @ rest"
  by (simp add: linkGitHubAction_def post_def prims fst_bind split: sum.splits)

lemma link_segments:
  "hd (segments (fst (linkGitHubAction w url tok acc rid))) =
     [Info [Lit ''Linking GitHub Action run '', Txt rid, Lit '' to task using token''],
      Post (url @ ''/delino.devbird.v1.DevBird/LinkGitHubActionByToken'')
        (JObj [(''workflow_execution_token'', JStr tok), (''github_run_id'', JStr rid)])
        (auth_headers acc)]"
  "concat (tl (segments (fst (linkGitHubAction w url tok acc rid)))) =
     drop 2 (fst (linkGitHubAction w url tok acc rid))"
  using link_shape [of w url tok acc rid] by auto

lemma link_no_registration:
  "only (\<lambda>ev. \<not> is_registration ev) (linkGitHubAction w url tok acc rid)"
  unfolding linkGitHubAction_def
  by (intro only_intros) (simp_all add: suffix_append_long suffix_to_prefix)

lemma rejects_bind_task_emit: "rejects (fst (bind_task (emit ev) f)) = rejects (fst (f ()))"
  by (simp add: rejects_def emit_def)

text \<open>
  With both tokens supplied, a post-processing run fails exactly when the link call throws,
  in either mode: the scan that runs beside it never throws.
\<close>

lemma postprocess_fails_iff_link_throws:
  assumes "js_trim (input w ''devbird_workflow_execution_token'') \<noteq> []"
    and "input w ''delino_access_token'' \<noteq> []"
  shows "failed (trace (postprocess_run w)) = rejects (link_call w)"
  by (simp add: postprocess_failed_iff postprocess_body_supplied [OF assms] info_def
      rejects_bind_task_emit rejects_promise_all uploadPlanFiles_total detectBranches_total)

text \<open>
  C6, as claimed: every failure of the branch-listing command is caught and yields an empty
  branch set plus a warning, and the run still ends in success. The code: with a shell that
  cannot be started and a backend that cannot be reached, \<^verbatim>\<open>execSync\<close> throws, the error is
  caught and logged as a warning, and the run ends in failure all the same, because the link
  call beside it throws. And in a directory that is not a repository \<^verbatim>\<open>git\<close> fails, but
  the pipeline ends with the status of \<^verbatim>\<open>head\<close>: \<^verbatim>\<open>execSync\<close> does not throw, the empty
  branch set is registered, and the run logs no warning.
\<close>

theorem branch_listing_failure_can_end_in_failure:
  "result (execSync no_shell_unreachable (branchCommand ''main'')) =
     Inl (Error ''spawnSync /bin/sh ENOENT'')
   \<and> trace (postprocess_run no_shell_unreachable) =
     [Info [Lit ''Running in develop mode - only detecting branches''],
      Info [Lit ''Linking GitHub Action run '', Txt ''42'', Lit '' to task using token''],
      Post ''https://devbird.api.delino.io/delino.devbird.v1.DevBird/LinkGitHubActionByToken''
        (JObj [(''workflow_execution_token'', JStr ''tok''), (''github_run_id'', JStr ''42'')])
        [(''Content-Type'', ''application/json''), (''Authorization'', ''Bearer acc'')],
      Info [Lit ''Detecting newly created branches...''],
      Exec (branchCommand ''main''),
      Warning [Lit ''Error detecting branches: '', Err (Error ''spawnSync /bin/sh ENOENT'')],
      SetFailed ''connect ECONNREFUSED'']
   \<and> failed (trace (postprocess_run no_shell_unreachable))
   \<and> result (execSync not_a_repository (branchCommand ''main'')) = Inr []
   \<and> trace (postprocess_run not_a_repository) =
     [Info [Lit ''Running in develop mode - only detecting branches''],
      Info [Lit ''Linking GitHub Action run '', Txt ''42'', Lit '' to task using token''],
      Post ''https://devbird.api.delino.io/delino.devbird.v1.DevBird/LinkGitHubActionByToken''
        (JObj [(''workflow_execution_token'', JStr ''tok''), (''github_run_id'', JStr ''42'')])
        [(''Content-Type'', ''application/json''), (''Authorization'', ''Bearer acc'')],
      Info [Lit ''Detecting newly created branches...''],
      Exec (branchCommand ''main''),
      Info [Lit ''Found '', Count 0, Lit '' branches: '', Txt []],
      Post ''https://devbird.api.delino.io/delino.devbird.v1.DevBird/RegisterBranchesByToken''
        (JObj [(''workflow_execution_token'', JStr ''tok''), (''branch_names'', JArr [])])
        [(''Content-Type'', ''application/json''), (''Authorization'', ''Bearer acc'')],
      Info [Lit ''Successfully linked GitHub Action run to task: '', Js (JStr ''ok'')],
      Info [Lit ''Successfully registered branches: '', Js (JStr ''ok'')]]
   \<and> \<not> list_ex is_Warning (trace (postprocess_run not_a_repository))"
proof -
  have u: "input no_shell_unreachable = inputs_of [(''devbird_workflow_execution_token'', ''tok''),
                         (''delino_access_token'', ''acc'')]"
    "http_post no_shell_unreachable = (\<lambda>url body headers. Inl (Error ''connect ECONNREFUSED''))"
    "env no_shell_unreachable = (\<lambda>name. [])" "run_id no_shell_unreachable = ''42''"
    "git_branch no_shell_unreachable = []"
    "spawn_failure no_shell_unreachable = Some (Error ''spawnSync /bin/sh ENOENT'')"
    "arrival no_shell_unreachable = (\<lambda>k. True)"
    by (simp_all add: no_shell_unreachable_def unreachable_def healthy_def)
  have n: "input not_a_repository = inputs_of [(''devbird_workflow_execution_token'', ''tok''),
                         (''delino_access_token'', ''acc'')]"
    "http_post not_a_repository = (\<lambda>url body headers. Inr ok_response)"
    "JSON_parse not_a_repository ''{\"success\":true,\"message\":\"ok\"}'' = Inr ok_json"
    "env not_a_repository = (\<lambda>name. [])" "run_id not_a_repository = ''42''"
    "git_branch not_a_repository = []" "spawn_failure not_a_repository = None"
    "arrival not_a_repository = (\<lambda>k. True)"
    by (simp_all add: not_a_repository_def develop_mode_def healthy_def)
  have f: "bre_fragment ''main''"
    by (simp add: bre_fragment_def plain_char_def)
  have xu: "shell no_shell_unreachable (branchCommand ''main'') = Inl (Error ''spawnSync /bin/sh ENOENT'')"
    by (simp add: shell_branchCommand f ascii_text_def u)
  have xn: "shell not_a_repository (branchCommand ''main'') = Inr []"
    by (simp add: shell_branchCommand f ascii_text_def n pipeline_output_def text_lines_def)
  have lu: "linkGitHubAction no_shell_unreachable ''https://devbird.api.delino.io'' ''tok'' ''acc'' ''42'' =
    ([Info [Lit ''Linking GitHub Action run '', Txt ''42'', Lit '' to task using token''],
      Post ''https://devbird.api.delino.io/delino.devbird.v1.DevBird/LinkGitHubActionByToken''
       (JObj [(''workflow_execution_token'', JStr ''tok''), (''github_run_id'', JStr ''42'')])
       [(''Content-Type'', ''application/json''), (''Authorization'', ''Bearer acc'')]],
     Inl (Error ''connect ECONNREFUSED''))"
    by (simp add: linkGitHubAction_def post_def prims u auth_headers_def)
  have du: "detectBranches no_shell_unreachable ''https://devbird.api.delino.io'' ''tok'' ''acc'' [] =
    ([Info [Lit ''Detecting newly created branches...''],
      Exec (branchCommand ''main''),
      Warning [Lit ''Error detecting branches: '', Err (Error ''spawnSync /bin/sh ENOENT'')]],
     Inr ())"
    by (simp add: detectBranches_def list_branches_def execSync_eq defaultBaseBranch_def xu prims)
  have ru: "postprocess_run no_shell_unreachable =
    ([Info [Lit ''Running in develop mode - only detecting branches''],
      Info [Lit ''Linking GitHub Action run '', Txt ''42'', Lit '' to task using token''],
      Post ''https://devbird.api.delino.io/delino.devbird.v1.DevBird/LinkGitHubActionByToken''
        (JObj [(''workflow_execution_token'', JStr ''tok''), (''github_run_id'', JStr ''42'')])
        [(''Content-Type'', ''application/json''), (''Authorization'', ''Bearer acc'')],
      Info [Lit ''Detecting newly created branches...''],
      Exec (branchCommand ''main''),
      Warning [Lit ''Error detecting branches: '', Err (Error ''spawnSync /bin/sh ENOENT'')],
      SetFailed ''connect ECONNREFUSED''], Inr ())"
    by (simp add: postprocess_run_def postprocess_body_def getInput_def prims Let_def
        devbird_api_def u lu du promise_all_def run_catch_def)
  have ln: "linkGitHubAction not_a_repository ''https://devbird.api.delino.io'' ''tok'' ''acc'' ''42'' =
    ([Info [Lit ''Linking GitHub Action run '', Txt ''42'', Lit '' to task using token''],
      Post ''https://devbird.api.delino.io/delino.devbird.v1.DevBird/LinkGitHubActionByToken''
       (JObj [(''workflow_execution_token'', JStr ''tok''), (''github_run_id'', JStr ''42'')])
       [(''Content-Type'', ''application/json''), (''Authorization'', ''Bearer acc'')],
      Info [Lit ''Successfully linked GitHub Action run to task: '', Js (JStr ''ok'')]],
     Inr ())"
    by (simp add: linkGitHubAction_def post_def prims n auth_headers_def ok_response_def
        ok_json_def field_def)
  have dn: "detectBranches not_a_repository ''https://devbird.api.delino.io'' ''tok'' ''acc'' [] =
    ([Info [Lit ''Detecting newly created branches...''],
      Exec (branchCommand ''main''),
      Info [Lit ''Found '', Count 0, Lit '' branches: '', Txt []],
      Post ''https://devbird.api.delino.io/delino.devbird.v1.DevBird/RegisterBranchesByToken''
       (JObj [(''workflow_execution_token'', JStr ''tok''), (''branch_names'', JArr [])])
       [(''Content-Type'', ''application/json''), (''Authorization'', ''Bearer acc'')],
      Info [Lit ''Successfully registered branches: '', Js (JStr ''ok'')]],
     Inr ())"
    by (simp add: detectBranches_def list_branches_def execSync_eq defaultBaseBranch_def xn
        post_def prims n auth_headers_def branches_of_def ok_response_def ok_json_def field_def)
  have rn: "postprocess_run not_a_repository =
    ([Info [Lit ''Running in develop mode - only detecting branches''],
      Info [Lit ''Linking GitHub Action run '', Txt ''42'', Lit '' to task using token''],
      Post ''https://devbird.api.delino.io/delino.devbird.v1.DevBird/LinkGitHubActionByToken''
        (JObj [(''workflow_execution_token'', JStr ''tok''), (''github_run_id'', JStr ''42'')])
        [(''Content-Type'', ''application/json''), (''Authorization'', ''Bearer acc'')],
      Info [Lit ''Detecting newly created branches...''],
      Exec (branchCommand ''main''),
      Info [Lit ''Found '', Count 0, Lit '' branches: '', Txt []],
      Post ''https://devbird.api.delino.io/delino.devbird.v1.DevBird/RegisterBranchesByToken''
        (JObj [(''workflow_execution_token'', JStr ''tok''), (''branch_names'', JArr [])])
        [(''Content-Type'', ''application/json''), (''Authorization'', ''Bearer acc'')],
      Info [Lit ''Successfully linked GitHub Action run to task: '', Js (JStr ''ok'')],
      Info [Lit ''Successfully registered branches: '', Js (JStr ''ok'')]], Inr ())"
    by (simp add: postprocess_run_def postprocess_body_def getInput_def prims Let_def
        devbird_api_def n ln dn promise_all_def run_catch_def)
  show ?thesis
    by (simp add: ru rn trace_def failed_def result_def execSync_eq xu xn)
qed

text \<open>
  C6, as the code has it. Let both tokens be supplied and the mode not be \<^verbatim>\<open>"plan"\<close>. When
  \<^verbatim>\<open>execSync\<close> throws \<open>e\<close> on the branch pipeline, \<^verbatim>\<open>detectBranches\<close> catches it, logs the
  warning \<^verbatim>\<open>Error detecting branches\<close> with \<open>e\<close> and returns before the link call goes on;
  it does nothing else, so no branch set is logged or registered. When \<^verbatim>\<open>execSync\<close> does
  not throw, the branch set read from its output is logged and sent to the registration
  endpoint before the link call goes on; an empty output gives the empty branch set. In
  both cases the run does not fail as long as the link call does not throw.
\<close>

theorem branch_listing_failure_not_fatal:
  assumes "js_trim (input w ''devbird_workflow_execution_token'') \<noteq> []"
    and "input w ''delino_access_token'' \<noteq> []"
    and "devbirdMode w \<noteq> ''plan''"
  shows "(result (execSync w (branchCommand (defaultBaseBranch (js_trim (input w ''base_branch'')))))
          = Inl e \<longrightarrow>
        detectBranches w (devbird_api w) (js_trim (input w ''devbird_workflow_execution_token''))
            (js_trim (input w ''delino_access_token'')) (js_trim (input w ''base_branch'')) =
          ([Info [Lit ''Detecting newly created branches...''],
            Exec (branchCommand (defaultBaseBranch (js_trim (input w ''base_branch'')))),
            Warning [Lit ''Error detecting branches: '', Err e]], Inr ())
        \<and> trace (postprocess_run w) =
          [Info [Lit ''Running in develop mode - only detecting branches''],
           Info [Lit ''Linking GitHub Action run '', Txt (run_id w), Lit '' to task using token''],
           Post (devbird_api w @ ''/delino.devbird.v1.DevBird/LinkGitHubActionByToken'')
             (JObj [(''workflow_execution_token'',
                       JStr (js_trim (input w ''devbird_workflow_execution_token''))),
                    (''github_run_id'', JStr (run_id w))])
             (auth_headers (js_trim (input w ''delino_access_token''))),
           Info [Lit ''Detecting newly created branches...''],
           Exec (branchCommand (defaultBaseBranch (js_trim (input w ''base_branch'')))),
           Warning [Lit ''Error detecting branches: '', Err e]]
          @ drop 2 (trace (link_call w))
          @ (case result (link_call w) of Inl err \<Rightarrow> trace (run_catch err) | Inr u \<Rightarrow> [])
        \<and> \<not> list_ex is_registration (trace (postprocess_run w)))
    \<and> (result (execSync w (branchCommand (defaultBaseBranch (js_trim (input w ''base_branch'')))))
          = Inr out \<longrightarrow>
        take 7 (trace (postprocess_run w)) =
          [Info [Lit ''Running in develop mode - only detecting branches''],
           Info [Lit ''Linking GitHub Action run '', Txt (run_id w), Lit '' to task using token''],
           Post (devbird_api w @ ''/delino.devbird.v1.DevBird/LinkGitHubActionByToken'')
             (JObj [(''workflow_execution_token'',
                       JStr (js_trim (input w ''devbird_workflow_execution_token''))),
                    (''github_run_id'', JStr (run_id w))])
             (auth_headers (js_trim (input w ''delino_access_token''))),
           Info [Lit ''Detecting newly created branches...''],
           Exec (branchCommand (defaultBaseBranch (js_trim (input w ''base_branch'')))),
           Info [Lit ''Found '', Count (length (branches_of (js_trim out))), Lit '' branches: '',
                 Txt (js_join '', '' (branches_of (js_trim out)))],
           Post (devbird_api w @ ''/delino.devbird.v1.DevBird/RegisterBranchesByToken'')
             (JObj [(''workflow_execution_token'',
                       JStr (js_trim (input w ''devbird_workflow_execution_token''))),
                    (''branch_names'', JArr (map JStr (branches_of (js_trim out))))])
             (auth_headers (js_trim (input w ''delino_access_token'')))])
    \<and> branches_of (js_trim []) = []
    \<and> (\<not> rejects (link_call w) \<longrightarrow> \<not> failed (trace (postprocess_run w)))"
proof (intro conjI impI)
  let ?tok = "js_trim (input w ''devbird_workflow_execution_token'')"
  let ?acc = "js_trim (input w ''delino_access_token'')"
  let ?base = "js_trim (input w ''base_branch'')"
  let ?link = "[Info [Lit ''Linking GitHub Action run '', Txt (run_id w), Lit '' to task using token''],
           Post (devbird_api w @ ''/delino.devbird.v1.DevBird/LinkGitHubActionByToken'')
             (JObj [(''workflow_execution_token'', JStr ?tok), (''github_run_id'', JStr (run_id w))])
             (auth_headers ?acc)]"
  have body: "postprocess_body w =
       bind_task (info [Lit ''Running in develop mode - only detecting branches'']) (\<lambda>u.
       promise_all w (link_call w) (detectBranches w (devbird_api w) ?tok ?acc ?base))"
    using assms by (simp add: postprocess_body_supplied)
  have seg: "hd (segments (fst (link_call w))) = ?link"
    "concat (tl (segments (fst (link_call w)))) = drop 2 (fst (link_call w))"
    unfolding link_call_def by (rule link_segments)+
  have noreg: "\<not> list_ex is_registration (drop 2 (fst (link_call w)))"
    using link_no_registration [of w "devbird_api w" ?tok ?acc "run_id w"]
    by (auto simp: only_def link_call_def list_all_iff list_ex_iff dest: in_set_dropD)
  {
    assume x: "result (execSync w (branchCommand (defaultBaseBranch ?base))) = Inl e"
    note d = detectBranches_command_fails [OF x]
    show "detectBranches w (devbird_api w) ?tok ?acc ?base =
          ([Info [Lit ''Detecting newly created branches...''],
            Exec (branchCommand (defaultBaseBranch ?base)),
            Warning [Lit ''Error detecting branches: '', Err e]], Inr ())"
      by (rule d)
    have p: "promise_all w (link_call w) (detectBranches w (devbird_api w) ?tok ?acc ?base) =
        ((?link @ [Info [Lit ''Detecting newly created branches...''],
                   Exec (branchCommand (defaultBaseBranch ?base)),
                   Warning [Lit ''Error detecting branches: '', Err e]]
            @ drop 2 (fst (link_call w)), snd (link_call w)), [])"
      by (simp add: d promise_all_no_wait seg)
    show t: "trace (postprocess_run w) =
          [Info [Lit ''Running in develop mode - only detecting branches''],
           Info [Lit ''Linking GitHub Action run '', Txt (run_id w), Lit '' to task using token''],
           Post (devbird_api w @ ''/delino.devbird.v1.DevBird/LinkGitHubActionByToken'')
             (JObj [(''workflow_execution_token'', JStr ?tok), (''github_run_id'', JStr (run_id w))])
             (auth_headers ?acc),
           Info [Lit ''Detecting newly created branches...''],
           Exec (branchCommand (defaultBaseBranch ?base)),
           Warning [Lit ''Error detecting branches: '', Err e]]
          @ drop 2 (trace (link_call w))
          @ (case result (link_call w) of Inl err \<Rightarrow> trace (run_catch err) | Inr u \<Rightarrow> [])"
      by (cases "snd (link_call w)")
         (simp_all add: postprocess_run_def body p prims trace_def result_def)
    have "\<not> list_ex is_registration
         ([Info [Lit ''Running in develop mode - only detecting branches''],
           Info [Lit ''Linking GitHub Action run '', Txt (run_id w), Lit '' to task using token''],
           Post (devbird_api w @ ''/delino.devbird.v1.DevBird/LinkGitHubActionByToken'')
             (JObj [(''workflow_execution_token'', JStr ?tok), (''github_run_id'', JStr (run_id w))])
             (auth_headers ?acc),
           Info [Lit ''Detecting newly created branches...''],
           Exec (branchCommand (defaultBaseBranch ?base)),
           Warning [Lit ''Error detecting branches: '', Err e]]
          @ drop 2 (trace (link_call w))
          @ (case result (link_call w) of Inl err \<Rightarrow> trace (run_catch err) | Inr u \<Rightarrow> []))"
      using noreg
      by (cases "result (link_call w)")
         (auto simp add: trace_def suffix_append_long suffix_to_prefix run_catch_def prims
           split: exn.splits)
    then show "\<not> list_ex is_registration (trace (postprocess_run w))"
      unfolding t .
  }
  {
    assume "result (execSync w (branchCommand (defaultBaseBranch ?base))) = Inr out"
    then have l: "list_branches w ?base =
        ([Exec (branchCommand (defaultBaseBranch ?base))], Inr (branches_of (js_trim out)))"
      by (simp add: list_branches_def execSync_eq result_def prims)
    obtain rest where r: "fst (detectBranches w (devbird_api w) ?tok ?acc ?base) =
       [Info [Lit ''Detecting newly created branches...''],
        Exec (branchCommand (defaultBaseBranch ?base)),
        Info [Lit ''Found '', Count (length (branches_of (js_trim out))), Lit '' branches: '',
              Txt (js_join '', '' (branches_of (js_trim out)))],
        Post (devbird_api w @ ''/delino.devbird.v1.DevBird/RegisterBranchesByToken'')
          (JObj [(''workflow_execution_token'', JStr ?tok),
                 (''branch_names'', JArr (map JStr (branches_of (js_trim out))))])
          (auth_headers ?acc)] @ rest"
      using detectBranches_registers [OF l] by blast
    then have h: "hd (segments (fst (detectBranches w (devbird_api w) ?tok ?acc ?base))) =
       [Info [Lit ''Detecting newly created branches...''],
        Exec (branchCommand (defaultBaseBranch ?base)),
        Info [Lit ''Found '', Count (length (branches_of (js_trim out))), Lit '' branches: '',
              Txt (js_join '', '' (branches_of (js_trim out)))],
        Post (devbird_api w @ ''/delino.devbird.v1.DevBird/RegisterBranchesByToken'')
          (JObj [(''workflow_execution_token'', JStr ?tok),
                 (''branch_names'', JArr (map JStr (branches_of (js_trim out))))])
          (auth_headers ?acc)]"
      by simp
    show "take 7 (trace (postprocess_run w)) =
          [Info [Lit ''Running in develop mode - only detecting branches''],
           Info [Lit ''Linking GitHub Action run '', Txt (run_id w), Lit '' to task using token''],
           Post (devbird_api w @ ''/delino.devbird.v1.DevBird/LinkGitHubActionByToken'')
             (JObj [(''workflow_execution_token'', JStr ?tok), (''github_run_id'', JStr (run_id w))])
             (auth_headers ?acc),
           Info [Lit ''Detecting newly created branches...''],
           Exec (branchCommand (defaultBaseBranch ?base)),
           Info [Lit ''Found '', Count (length (branches_of (js_trim out))), Lit '' branches: '',
                 Txt (js_join '', '' (branches_of (js_trim out)))],
           Post (devbird_api w @ ''/delino.devbird.v1.DevBird/RegisterBranchesByToken'')
             (JObj [(''workflow_execution_token'', JStr ?tok),
                    (''branch_names'', JArr (map JStr (branches_of (js_trim out))))])
             (auth_headers ?acc)]"
      by (cases "race (arrival w) 0 (tl (segments (fst (link_call w)))) (snd (link_call w))
            (tl (segments (fst (detectBranches w (devbird_api w) ?tok ?acc ?base))))
            (snd (detectBranches w (devbird_api w) ?tok ?acc ?base))" rule: prod.exhaust)
         (auto simp add: postprocess_run_def body prims trace_def promise_all_def Let_def seg(1) h
            try_catch_task_def split: prod.splits sum.splits)
  }
  show "branches_of (js_trim []) = []"
    by (simp add: branches_of_def)
  {
    assume "\<not> rejects (link_call w)"
    then show "\<not> failed (trace (postprocess_run w))"
      using assms by (simp add: postprocess_fails_iff_link_throws)
  }
qed

theorem branch_listing_failure_not_fatal_witness:
  "(result (execSync no_shell (branchCommand (defaultBaseBranch []))) =
      Inl (Error ''spawnSync /bin/sh ENOENT'')
    \<and> \<not> rejects (link_call no_shell)
    \<and> detectBranches no_shell ''https://devbird.api.delino.io'' ''tok'' ''acc'' [] =
     ([Info [Lit ''Detecting newly created branches...''],
       Exec (branchCommand ''main''),
       Warning [Lit ''Error detecting branches: '', Err (Error ''spawnSync /bin/sh ENOENT'')]],
      Inr ())
    \<and> trace (postprocess_run no_shell) =
     [Info [Lit ''Running in develop mode - only detecting branches''],
      Info [Lit ''Linking GitHub Action run '', Txt ''42'', Lit '' to task using token''],
      Post ''https://devbird.api.delino.io/delino.devbird.v1.DevBird/LinkGitHubActionByToken''
        (JObj [(''workflow_execution_token'', JStr ''tok''), (''github_run_id'', JStr ''42'')])
        [(''Content-Type'', ''application/json''), (''Authorization'', ''Bearer acc'')],
      Info [Lit ''Detecting newly created branches...''],
      Exec (branchCommand ''main''),
      Warning [Lit ''Error detecting branches: '', Err (Error ''spawnSync /bin/sh ENOENT'')],
      Info [Lit ''Successfully linked GitHub Action run to task: '', Js (JStr ''ok'')]]
    \<and> \<not> list_ex is_registration (trace (postprocess_run no_shell))
    \<and> \<not> failed (trace (postprocess_run no_shell)))
   \<and> (\<not> rejects (link_call not_a_repository)
    \<and> result (execSync not_a_repository (branchCommand (defaultBaseBranch []))) = Inr []
    \<and> take 7 (trace (postprocess_run not_a_repository)) =
     [Info [Lit ''Running in develop mode - only detecting branches''],
      Info [Lit ''Linking GitHub Action run '', Txt ''42'', Lit '' to task using token''],
      Post ''https://devbird.api.delino.io/delino.devbird.v1.DevBird/LinkGitHubActionByToken''
        (JObj [(''workflow_execution_token'', JStr ''tok''), (''github_run_id'', JStr ''42'')])
        [(''Content-Type'', ''application/json''), (''Authorization'', ''Bearer acc'')],
      Info [Lit ''Detecting newly created branches...''],
      Exec (branchCommand ''main''),
      Info [Lit ''Found '', Count 0, Lit '' branches: '', Txt []],
      Post ''https://devbird.api.delino.io/delino.devbird.v1.DevBird/RegisterBranchesByToken''
        (JObj [(''workflow_execution_token'', JStr ''tok''), (''branch_names'', JArr [])])
        [(''Content-Type'', ''application/json''), (''Authorization'', ''Bearer acc'')]]
    \<and> \<not> failed (trace (postprocess_run not_a_repository)))"
proof -
  have i: "input no_shell = inputs_of [(''devbird_workflow_execution_token'', ''tok''),
                         (''delino_access_token'', ''acc'')]"
    "spawn_failure no_shell = Some (Error ''spawnSync /bin/sh ENOENT'')"
    "run_id no_shell = ''42''" "env no_shell = (\<lambda>name. [])" "git_branch no_shell = []"
    by (simp_all add: no_shell_def develop_mode_def healthy_def)
  have n: "input not_a_repository = inputs_of [(''devbird_workflow_execution_token'', ''tok''),
                         (''delino_access_token'', ''acc'')]"
    "spawn_failure not_a_repository = None"
    "run_id not_a_repository = ''42''" "env not_a_repository = (\<lambda>name. [])"
    "git_branch not_a_repository = []"
    by (simp_all add: not_a_repository_def develop_mode_def healthy_def)
  have f: "bre_fragment (defaultBaseBranch [])"
    by (simp add: bre_fragment_def plain_char_def defaultBaseBranch_def)
  have x: "result (execSync no_shell (branchCommand (defaultBaseBranch []))) =
      Inl (Error ''spawnSync /bin/sh ENOENT'')"
    by (simp add: execSync_eq result_def shell_branchCommand f ascii_text_def i)
  have y: "result (execSync not_a_repository (branchCommand (defaultBaseBranch []))) = Inr []"
    by (simp add: execSync_eq result_def shell_branchCommand f ascii_text_def n
        pipeline_output_def text_lines_def)
  have m: "devbirdMode no_shell = ''develop''" "devbirdMode not_a_repository = ''develop''"
    by (simp_all add: devbirdMode_def i n)
  have l: "link_call no_shell =
     ([Info [Lit ''Linking GitHub Action run '', Txt ''42'', Lit '' to task using token''],
      Post ''https://devbird.api.delino.io/delino.devbird.v1.DevBird/LinkGitHubActionByToken''
        (JObj [(''workflow_execution_token'', JStr ''tok''), (''github_run_id'', JStr ''42'')])
        [(''Content-Type'', ''application/json''), (''Authorization'', ''Bearer acc'')],
      Info [Lit ''Successfully linked GitHub Action run to task: '', Js (JStr ''ok'')]], Inr ())"
    "link_call not_a_repository =
     ([Info [Lit ''Linking GitHub Action run '', Txt ''42'', Lit '' to task using token''],
      Post ''https://devbird.api.delino.io/delino.devbird.v1.DevBird/LinkGitHubActionByToken''
        (JObj [(''workflow_execution_token'', JStr ''tok''), (''github_run_id'', JStr ''42'')])
        [(''Content-Type'', ''application/json''), (''Authorization'', ''Bearer acc'')],
      Info [Lit ''Successfully linked GitHub Action run to task: '', Js (JStr ''ok'')]], Inr ())"
    by (simp_all add: link_call_def linkGitHubAction_def post_def prims no_shell_def
        not_a_repository_def develop_mode_def healthy_def ok_response_def ok_json_def
        auth_headers_def field_def devbird_api_def)
  show ?thesis
    using branch_listing_failure_not_fatal [of no_shell "Error ''spawnSync /bin/sh ENOENT''" "[]"]
      branch_listing_failure_not_fatal [of not_a_repository NonError "[]"] x y
    by (simp add: i n m devbird_api_def l trace_def result_def defaultBaseBranch_def
        auth_headers_def failed_def suffix_to_prefix)
qed

section \<open>Plan files are processed one by one (C7)\<close>



subsection \<open>The listing\<close>




subsection \<open>One file\<close>










subsection \<open>The upload inside the run\<close>




lemma is_space_simps [simp]:
  "is_space (CHR 0x0A)" "is_space CHR '' ''" "\<not> is_space CHR ''l''" "\<not> is_space CHR ''P''"
  by (simp_all add: is_space_def)



section \<open>The branch set\<close>

subsection \<open>Trimming and splitting the output of the pipeline\<close>

lemma split_nl_nonempty [simp]: "split_nl s \<noteq> []"
  by (induction s) (auto split: list.splits)

lemma trim_ascii_Nil [simp]: "trim_ascii [] = []"
  by (simp add: trim_ascii_def)

lemma trim_ascii_space_Cons: "is_space c \<Longrightarrow> trim_ascii (c # l) = trim_ascii l"
  by (simp add: trim_ascii_def)

lemma trim_ascii_space_snoc: "is_space c \<Longrightarrow> trim_ascii (l @ [c]) = trim_ascii l"
proof (cases "list_all is_space l")
  case True
  assume "is_space c"
  from True have "\<forall>x\<in>set l. is_space x"
    by (simp add: list_all_iff)
  with \<open>is_space c\<close> have "\<forall>x\<in>set (l @ [c]). is_space x" "\<forall>x\<in>set l. is_space x"
    by simp_all
  then have d: "dropWhile is_space (l @ [c]) = []" "dropWhile is_space l = []"
    by (simp_all only: dropWhile_eq_Nil_conv)
  show ?thesis by (simp only: trim_ascii_def d)
next
  case False
  assume c: "is_space c"
  from False have "dropWhile is_space (l @ [c]) = dropWhile is_space l @ [c]"
    by (auto simp: list_all_iff)
  with c show ?thesis by (simp add: trim_ascii_def)
qed

lemma branches_ascii_space_Cons: "is_space c \<Longrightarrow> branches_ascii (c # s) = branches_ascii s"
  by (cases "split_nl s") (auto simp: branches_ascii_def trim_ascii_space_Cons)

lemma branches_ascii_dropWhile: "branches_ascii (dropWhile is_space s) = branches_ascii s"
  by (induction s) (simp_all add: branches_ascii_space_Cons)

lemma split_nl_snoc:
  "split_nl (s @ [c]) =
     (if c = CHR 0x0A then split_nl s @ [[]]
      else butlast (split_nl s) @ [last (split_nl s) @ [c]])"
  by (induction s) (auto split: list.splits)

lemma branches_ascii_space_snoc: "is_space c \<Longrightarrow> branches_ascii (s @ [c]) = branches_ascii s"
proof -
  assume c: "is_space c"
  have "map trim_ascii (butlast (split_nl s) @ [last (split_nl s) @ [c]]) =
        map trim_ascii (butlast (split_nl s)) @ [trim_ascii (last (split_nl s))]"
    using c by (simp add: trim_ascii_space_snoc)
  also have "\<dots> = map trim_ascii (butlast (split_nl s) @ [last (split_nl s)])"
    by (simp del: append_butlast_last_id)
  also have "\<dots> = map trim_ascii (split_nl s)"
    by (simp only: append_butlast_last_id [OF split_nl_nonempty])
  finally have eq: "map trim_ascii (butlast (split_nl s) @ [last (split_nl s) @ [c]]) =
        map trim_ascii (split_nl s)" .
  show ?thesis
  proof (cases "c = CHR 0x0A")
    case True
    then show ?thesis
      by (simp add: branches_ascii_def split_nl_snoc trim_ascii_def)
  next
    case False
    then have "split_nl (s @ [c]) = butlast (split_nl s) @ [last (split_nl s) @ [c]]"
      by (simp add: split_nl_snoc)
    then show ?thesis
      by (simp only: branches_ascii_def eq)
  qed
qed

lemma branches_ascii_rev_dropWhile:
  "branches_ascii (rev (dropWhile is_space t)) = branches_ascii (rev t)"
  by (induction t) (simp_all add: branches_ascii_space_snoc)

lemma branches_ascii_trim: "branches_ascii (trim_ascii s) = branches_ascii s"
  using branches_ascii_rev_dropWhile [of "rev (dropWhile is_space s)"]
  by (simp add: trim_ascii_def branches_ascii_dropWhile)

lemma split_nl_line: "CHR 0x0A \<notin> set l \<Longrightarrow> split_nl (l @ CHR 0x0A # s) = l # split_nl s"
  by (induction l) auto

lemma split_nl_unlines:
  "list_all (\<lambda>l. CHR 0x0A \<notin> set l) ls \<Longrightarrow>
   split_nl (concat (map (\<lambda>l. l @ [CHR 0x0A]) ls)) = ls @ [[]]"
  by (induction ls) (simp_all add: split_nl_line)

lemma split_nl_no_nl: "list_all (\<lambda>l. CHR 0x0A \<notin> set l) (split_nl s)"
  by (induction s) (auto split: list.splits)

lemma text_lines_no_nl: "list_all (\<lambda>l. CHR 0x0A \<notin> set l) (text_lines s)"
  using split_nl_no_nl [of s]
  by (auto simp: text_lines_def Let_def list_all_iff dest: in_set_butlastD)

subsection \<open>ASCII text\<close>

lemma ascii_text_ascii: "ascii_text s \<Longrightarrow> ascii s"
  by (simp add: ascii_text_def ascii_def list_all_iff)

lemma split_nl_ascii: "ascii s \<Longrightarrow> list_all ascii (split_nl s)"
  by (induction s) (auto split: list.splits)

lemma text_lines_ascii: "ascii s \<Longrightarrow> list_all ascii (text_lines s)"
  using split_nl_ascii [of s]
  by (auto simp: text_lines_def Let_def list_all_iff dest: in_set_butlastD)

lemma ascii_trim_ascii: "ascii s \<Longrightarrow> ascii (trim_ascii s)"
  by (simp add: trim_ascii_def ascii_dropWhile)

lemma map_js_trim_ascii: "list_all ascii ls \<Longrightarrow> map js_trim ls = map trim_ascii ls"
  by (simp add: list_all_iff js_trim_ascii)

lemma branches_of_ascii: "ascii s \<Longrightarrow> branches_of s = branches_ascii s"
  by (simp add: branches_of_def branches_ascii_def map_js_trim_ascii [OF split_nl_ascii]
      trim_ascii_def)

lemma ascii_unlines: "list_all ascii ls \<Longrightarrow> ascii (concat (map (\<lambda>l. l @ [CHR 0x0A]) ls))"
  by (induction ls) simp_all

lemma branches_of_pipeline:
  assumes "ascii out"
  shows "branches_of (js_trim (pipeline_output d out)) =
     filter (\<lambda>b. b \<noteq> [])
       (map js_trim (take 20 (filter (\<lambda>l. \<not> grep_match d l) (text_lines out))))"
proof -
  let ?kept = "take 20 (filter (\<lambda>l. \<not> grep_match d l) (text_lines out))"
  have k: "list_all ascii ?kept"
    using text_lines_ascii [OF assms] by (auto simp: list_all_iff dest: in_set_takeD)
  then have p: "ascii (pipeline_output d out)"
    unfolding pipeline_output_def by (rule ascii_unlines)
  have "list_all (\<lambda>l. CHR 0x0A \<notin> set l) ?kept"
    using text_lines_no_nl [of out] by (auto simp: list_all_iff dest: in_set_takeD)
  then have "split_nl (pipeline_output d out) = ?kept @ [[]]"
    unfolding pipeline_output_def by (rule split_nl_unlines)
  then have "branches_ascii (pipeline_output d out) = filter (\<lambda>b. b \<noteq> []) (map trim_ascii ?kept)"
    by (simp add: branches_ascii_def trim_ascii_def)
  then have "branches_ascii (trim_ascii (pipeline_output d out)) =
      filter (\<lambda>b. b \<noteq> []) (map js_trim ?kept)"
    by (simp add: branches_ascii_trim map_js_trim_ascii [OF k])
  then show ?thesis
    by (simp add: js_trim_ascii [OF p] branches_of_ascii [OF ascii_trim_ascii [OF p]])
qed

lemma trim_ascii_idem: "trim_ascii (trim_ascii s) = trim_ascii s"
proof -
  define t where "t = dropWhile is_space s"
  define u where "u = rev (dropWhile is_space (rev t))"
  have t: "t = u @ rev (takeWhile is_space (rev t))"
    unfolding u_def by (metis rev_append rev_rev_ident takeWhile_dropWhile_id)
  have "dropWhile is_space u = u"
  proof (cases "u = []")
    case True
    then show ?thesis by simp
  next
    case False
    with t have "t \<noteq> []" and "hd t = hd u"
      by (auto, metis hd_append2)
    moreover from \<open>t \<noteq> []\<close> have "\<not> is_space (hd t)"
      unfolding t_def by (rule hd_dropWhile)
    ultimately show ?thesis
      using False by (simp add: dropWhile_eq_self_iff)
  qed
  moreover have "dropWhile is_space (rev u) = rev u"
    by (simp add: u_def)
  ultimately have "trim_ascii u = u"
    by (simp add: trim_ascii_def)
  moreover have "trim_ascii s = u"
    by (simp add: trim_ascii_def u_def t_def)
  ultimately show ?thesis by simp
qed

lemma js_trim_idem_ascii: "ascii s \<Longrightarrow> js_trim (js_trim s) = js_trim s"
  by (simp add: js_trim_ascii ascii_trim_ascii trim_ascii_idem)

subsection \<open>A pattern without \<^verbatim>\<open>.\<close> and \<^verbatim>\<open>*\<close> selects one name\<close>

lemma bre_items_literal:
  "list_all literal_char base \<Longrightarrow> bre_items acc base = rev acc @ map (\<lambda>c. One (Chr c)) base"
  by (induction base arbitrary: acc) (simp_all add: literal_char_def atom_of_def)

lemma re_match_literal: "re_match (map (\<lambda>c. One (Chr c)) base) l = (l = base)"
proof (induction base arbitrary: l)
  case Nil
  show ?case by simp
next
  case (Cons a base)
  show ?case
    by (cases l) (auto simp: Cons.IH)
qed

lemma grep_match_literal: "list_all literal_char base \<Longrightarrow> grep_match base l = (l = base)"
  by (simp add: grep_match_def bre_items_literal re_match_literal)

subsection \<open>The branches that are detected\<close>

lemma list_branches_fragment:
  assumes "bre_fragment (defaultBaseBranch baseBranch)" and "ascii_text (git_branch w)"
    and "spawn_failure w = None"
  shows "list_branches w baseBranch =
    ([Exec (branchCommand (defaultBaseBranch baseBranch))],
     Inr (filter (\<lambda>b. b \<noteq> [])
       (map js_trim (take 20 (filter (\<lambda>l. \<not> grep_match (defaultBaseBranch baseBranch) l)
          (text_lines (git_branch w)))))))"
  using assms
  by (simp add: list_branches_def execSync_eq shell_branchCommand prims
      branches_of_pipeline [OF ascii_text_ascii])

text \<open>
  What holds of the branch set, for a base branch the model covers: it is the first 20
  lines of the listing that the anchored pattern does not select, trimmed, without the
  empty ones; it has at most 20 entries, each trimmed and not empty, in the order of the
  listing; and for a base branch without \<^verbatim>\<open>.\<close> and \<^verbatim>\<open>*\<close> it is the branch set of the
  specification.
\<close>

lemma detectBranches_branch_set:
  assumes "bre_fragment (defaultBaseBranch baseBranch)" and "ascii_text (git_branch w)"
    and "spawn_failure w = None"
  shows "\<exists>bs. result (list_branches w baseBranch) = Inr bs
        \<and> bs = filter (\<lambda>b. b \<noteq> [])
            (map js_trim (take 20 (filter (\<lambda>l. \<not> grep_match (defaultBaseBranch baseBranch) l)
               (text_lines (git_branch w)))))
        \<and> (list_all literal_char (defaultBaseBranch baseBranch) \<longrightarrow>
             bs = branch_set_spec baseBranch (text_lines (git_branch w)))
        \<and> length bs \<le> 20
        \<and> (\<forall>b\<in>set bs. b \<noteq> [] \<and> js_trim b = b)
        \<and> subseq bs (map js_trim (text_lines (git_branch w)))"
proof -
  define kept where "kept = take 20 (filter (\<lambda>l. \<not> grep_match (defaultBaseBranch baseBranch) l)
               (text_lines (git_branch w)))"
  define bs where "bs = filter (\<lambda>b. b \<noteq> []) (map js_trim kept)"
  have r: "result (list_branches w baseBranch) = Inr bs"
    by (simp add: list_branches_fragment [OF assms] result_def bs_def kept_def)
  have len: "length bs \<le> 20"
  proof -
    have "length bs \<le> length kept"
      unfolding bs_def by (metis length_filter_le length_map)
    also have "\<dots> \<le> 20" by (simp add: kept_def)
    finally show ?thesis .
  qed
  have ka: "\<forall>l\<in>set kept. ascii l"
    using text_lines_ascii [OF ascii_text_ascii [OF assms(2)]]
    by (auto simp: kept_def list_all_iff dest: in_set_takeD)
  have trimmed: "\<forall>b\<in>set bs. b \<noteq> [] \<and> js_trim b = b"
    using ka by (auto simp: bs_def js_trim_idem_ascii)
  have sub: "subseq bs (map js_trim (text_lines (git_branch w)))"
  proof -
    let ?F = "filter (\<lambda>l. \<not> grep_match (defaultBaseBranch baseBranch) l) (text_lines (git_branch w))"
    have "subseq (take 20 ?F) (take 20 ?F @ drop 20 ?F)"
      by (rule list_emb_prefix) simp
    then have "subseq kept ?F"
      by (simp add: kept_def)
    moreover have "subseq ?F (text_lines (git_branch w))"
      by simp
    ultimately have "subseq kept (text_lines (git_branch w))"
      by (rule subseq_order.trans)
    then have m: "subseq (map js_trim kept) (map js_trim (text_lines (git_branch w)))"
      by (rule subseq_map)
    have "subseq bs (map js_trim kept)"
      by (simp add: bs_def)
    then show ?thesis
      using m by (rule subseq_order.trans)
  qed
  have lit: "bs = branch_set_spec baseBranch (text_lines (git_branch w))"
    if "list_all literal_char (defaultBaseBranch baseBranch)"
    using that by (simp add: bs_def kept_def branch_set_spec_def grep_match_literal)
  have "bs = filter (\<lambda>b. b \<noteq> [])
            (map js_trim (take 20 (filter (\<lambda>l. \<not> grep_match (defaultBaseBranch baseBranch) l)
               (text_lines (git_branch w)))))"
    by (simp add: bs_def kept_def)
  with r len trimmed sub lit
  show ?thesis
    by blast
qed

lemma text_lines_examples:
  "text_lines ''main\<newline>release-1.0\<newline>release-1x0\<newline>feature\<newline>'' = [''main'', ''release-1.0'', ''release-1x0'', ''feature'']"
  "text_lines ''main\<newline>v1.x\<newline>v1ax\<newline>feature-a\<newline>'' = [''main'', ''v1.x'', ''v1ax'', ''feature-a'']"
  "text_lines ''v\<newline>v1\<newline>v11\<newline>v12\<newline>'' = [''v'', ''v1'', ''v11'', ''v12'']"
  "text_lines ''main\<newline>feature-a\<newline>feature-b\<newline>'' = [''main'', ''feature-a'', ''feature-b'']"
  by (simp_all add: text_lines_def)

lemma js_trim_names [simp]:
  "js_trim ''main'' = ''main''" "js_trim ''feature'' = ''feature''" "js_trim ''feature-a'' = ''feature-a''"
  "js_trim ''feature-b'' = ''feature-b''" "js_trim ''release-1x0'' = ''release-1x0''"
  "js_trim ''release-1.0'' = ''release-1.0''" "js_trim ''v1.x'' = ''v1.x''" "js_trim ''v1ax'' = ''v1ax''"
  "js_trim ''v'' = ''v''" "js_trim ''v1'' = ''v1''" "js_trim ''v11'' = ''v11''" "js_trim ''v12'' = ''v12''"
  by (simp_all add: js_trim_ascii trim_ascii_def is_space_def)

lemma grep_examples:
  "grep_match ''release-1.0'' ''release-1x0''" "grep_match ''release-1.0'' ''release-1.0''"
  "\<not> grep_match ''release-1.0'' ''main''" "\<not> grep_match ''release-1.0'' ''feature''"
  "grep_match ''v1.x'' ''v1ax''" "grep_match ''v1.x'' ''v1.x''"
  "\<not> grep_match ''v1.x'' ''main''" "\<not> grep_match ''v1.x'' ''feature-a''"
  "grep_match ''v1*'' ''v''" "grep_match ''v1*'' ''v1''" "grep_match ''v1*'' ''v11''"
  "\<not> grep_match ''v1*'' ''v12''"
  "\<not> grep_match ''main'' ''feature-a''" "\<not> grep_match ''main'' ''feature-b''"
  "grep_match ''main'' ''main''"
  by (simp_all add: grep_match_def atom_of_def)

text \<open>
  The example of the specification: branches \<^verbatim>\<open>main\<close>, \<^verbatim>\<open>feature-a\<close>, \<^verbatim>\<open>feature-b\<close> and
  base branch \<^verbatim>\<open>main\<close> (here by default).
\<close>

lemma detectBranches_spec_example:
  "result (list_branches spec_example []) = Inr [''feature-a'', ''feature-b'']"
proof -
  have w: "git_branch spec_example = ''main\<newline>feature-a\<newline>feature-b\<newline>''"
    "spawn_failure spec_example = None"
    by (simp_all add: spec_example_def healthy_def)
  have f: "bre_fragment (defaultBaseBranch [])" "ascii_text (git_branch spec_example)"
    by (simp_all add: bre_fragment_def defaultBaseBranch_def plain_char_def ascii_text_def w)
  show ?thesis
    by (simp add: list_branches_fragment [OF f w(2)] result_def w(1) text_lines_examples
        defaultBaseBranch_def grep_examples)
qed

section \<open>The base branch is excluded by pattern, not by name (C4)\<close>

text \<open>
  C4. The claim: for every branch listing and every base branch, branch detection returns
  the listed names with the branch named by the base branch excluded, trimmed, without
  empty entries, in order, at most 20. The code hands the base branch to \<^verbatim>\<open>grep\<close> as a
  pattern, unescaped: with base branch \<^verbatim>\<open>release-1.0\<close> and the branches \<^verbatim>\<open>main\<close>,
  \<^verbatim>\<open>release-1.0\<close>, \<^verbatim>\<open>release-1x0\<close>, \<^verbatim>\<open>feature\<close>, the branch \<^verbatim>\<open>release-1x0\<close> is excluded as
  well. The branch set that is logged and registered is \<^verbatim>\<open>main\<close>, \<^verbatim>\<open>feature\<close>, not the
  branch set of the specification, \<^verbatim>\<open>main\<close>, \<^verbatim>\<open>release-1x0\<close>, \<^verbatim>\<open>feature\<close>.
\<close>

theorem base_branch_exclusion_not_by_name:
  "branch_pipeline (branchCommand ''release-1.0'') = Some ''^release-1.0$''
   \<and> result (list_branches release_repo ''release-1.0'') = Inr [''main'', ''feature'']
   \<and> branch_set_spec ''release-1.0'' (text_lines (git_branch release_repo)) =
       [''main'', ''release-1x0'', ''feature'']
   \<and> result (list_branches release_repo ''release-1.0'') \<noteq>
       Inr (branch_set_spec ''release-1.0'' (text_lines (git_branch release_repo)))
   \<and> take 4 (trace (detectBranches release_repo ''https://devbird.api.delino.io'' ''tok'' ''acc''
        ''release-1.0'')) =
       [Info [Lit ''Detecting newly created branches...''],
        Exec (branchCommand ''release-1.0''),
        Info [Lit ''Found '', Count 2, Lit '' branches: '', Txt ''main, feature''],
        Post ''https://devbird.api.delino.io/delino.devbird.v1.DevBird/RegisterBranchesByToken''
          (JObj [(''workflow_execution_token'', JStr ''tok''),
                 (''branch_names'', JArr [JStr ''main'', JStr ''feature''])])
          [(''Content-Type'', ''application/json''), (''Authorization'', ''Bearer acc'')]]"
proof -
  have w: "git_branch release_repo = ''main\<newline>release-1.0\<newline>release-1x0\<newline>feature\<newline>''"
    "spawn_failure release_repo = None"
    by (simp_all add: release_repo_def healthy_def)
  have d: "defaultBaseBranch ''release-1.0'' = ''release-1.0''"
    by (simp add: defaultBaseBranch_def)
  have f: "bre_fragment (defaultBaseBranch ''release-1.0'')" "ascii_text (git_branch release_repo)"
    by (simp_all add: bre_fragment_def d plain_char_def ascii_text_def w)
  have l: "list_branches release_repo ''release-1.0'' =
      ([Exec (branchCommand ''release-1.0'')], Inr [''main'', ''feature''])"
    by (simp add: list_branches_fragment [OF f w(2)] w(1) text_lines_examples d grep_examples)
  have c: "branch_pipeline (branchCommand ''release-1.0'') = Some ''^release-1.0$''"
    using branch_pipeline_branchCommand [of "''release-1.0''"] by simp
  obtain rest where "fst (detectBranches release_repo ''https://devbird.api.delino.io'' ''tok'' ''acc''
        ''release-1.0'') =
     [Info [Lit ''Detecting newly created branches...''],
      Exec (branchCommand (defaultBaseBranch ''release-1.0'')),
      Info [Lit ''Found '', Count (length [''main'', ''feature'']), Lit '' branches: '',
            Txt (js_join '', '' [''main'', ''feature''])],
      Post (''https://devbird.api.delino.io'' @ ''/delino.devbird.v1.DevBird/RegisterBranchesByToken'')
        (JObj [(''workflow_execution_token'', JStr ''tok''),
               (''branch_names'', JArr (map JStr [''main'', ''feature'']))])
        (auth_headers ''acc'')] @ rest"
    using detectBranches_registers [of release_repo "''release-1.0''" "[''main'', ''feature'']"
        "''https://devbird.api.delino.io''" "''tok''" "''acc''"] l d by auto
  then show ?thesis
    by (simp add: l c result_def trace_def d auth_headers_def w(1) text_lines_examples
        branch_set_spec_def)
qed

section \<open>The exclusion is a pattern match (C10)\<close>

text \<open>
  C10. The command that \<^verbatim>\<open>detectBranches\<close> builds puts the base branch between the
  anchors of a \<^verbatim>\<open>grep\<close> pattern, so the exclusion is a match against that pattern, not a
  comparison of names. With base branch \<^verbatim>\<open>v1.x\<close> the pattern is \<^verbatim>\<open>^v1.x$\<close>: the listed
  branch \<^verbatim>\<open>v1ax\<close>, whose name is not the base branch, matches it and is excluded from the
  output of the pipeline and from the branch set along with \<^verbatim>\<open>v1.x\<close>. With base branch
  \<^verbatim>\<open>v1*\<close> the branches \<^verbatim>\<open>v\<close>, \<^verbatim>\<open>v1\<close> and \<^verbatim>\<open>v11\<close> are excluded, none of which is named
  \<^verbatim>\<open>v1*\<close>.
\<close>

theorem base_branch_exclusion_is_pattern_match:
  "branch_pipeline (branchCommand ''v1.x'') = Some ''^v1.x$''
   \<and> anchored ''^v1.x$'' = Some ''v1.x''
   \<and> text_lines (git_branch v1_repo) = [''main'', ''v1.x'', ''v1ax'', ''feature-a'']
   \<and> ''v1ax'' \<noteq> ''v1.x''
   \<and> grep_match ''v1.x'' ''v1ax''
   \<and> result (execSync v1_repo (branchCommand ''v1.x'')) = Inr ''main\<newline>feature-a\<newline>''
   \<and> result (list_branches v1_repo ''v1.x'') = Inr [''main'', ''feature-a'']
   \<and> text_lines (git_branch star_repo) = [''v'', ''v1'', ''v11'', ''v12'']
   \<and> result (list_branches star_repo ''v1*'') = Inr [''v12'']"
proof -
  have w: "git_branch v1_repo = ''main\<newline>v1.x\<newline>v1ax\<newline>feature-a\<newline>''"
    "spawn_failure v1_repo = None"
    "git_branch star_repo = ''v\<newline>v1\<newline>v11\<newline>v12\<newline>''"
    "spawn_failure star_repo = None"
    by (simp_all add: v1_repo_def star_repo_def healthy_def)
  have d: "defaultBaseBranch ''v1.x'' = ''v1.x''" "defaultBaseBranch ''v1*'' = ''v1*''"
    by (simp_all add: defaultBaseBranch_def)
  have f: "bre_fragment (defaultBaseBranch ''v1.x'')" "ascii_text (git_branch v1_repo)"
    "bre_fragment (defaultBaseBranch ''v1*'')" "ascii_text (git_branch star_repo)"
    by (simp_all add: bre_fragment_def d plain_char_def ascii_text_def w)
  have c: "branch_pipeline (branchCommand ''v1.x'') = Some ''^v1.x$''"
    using branch_pipeline_branchCommand [of "''v1.x''"] by simp
  have a: "anchored ''^v1.x$'' = Some ''v1.x''"
    using anchored_base [of "''v1.x''"] by simp
  have x: "shell v1_repo (branchCommand ''v1.x'') = Inr ''main\<newline>feature-a\<newline>''"
    using f(1,2)
    by (simp add: shell_branchCommand d w pipeline_output_def text_lines_examples grep_examples)
  show ?thesis
    by (simp add: c a x execSync_eq list_branches_fragment [OF f(1,2) w(2)]
        list_branches_fragment [OF f(3,4) w(4)] result_def w(1,3) text_lines_examples d
        grep_examples)
qed

end
